theory Spec2Isabelle
  imports Complex_Main
begin

section \<open>JavaScript values the service relies on\<close>

text \<open>
  Strings are character lists. The SQL keywords the code looks for are ASCII, and
  \<open>toUpperCase\<close> is modelled on ASCII text: the letters a to z are mapped to A to Z and
  every other character is kept.
\<close>

definition toUpperCase_char :: "char \<Rightarrow> char" where
  "toUpperCase_char c =
     (case map_of (zip ''abcdefghijklmnopqrstuvwxyz'' ''ABCDEFGHIJKLMNOPQRSTUVWXYZ'') c of
        Some u \<Rightarrow> u
      | None \<Rightarrow> c)"

definition toUpperCase :: "string \<Rightarrow> string" where
  "toUpperCase s = map toUpperCase_char s"

fun starts_with :: "string \<Rightarrow> string \<Rightarrow> bool" where
  "starts_with s [] = True"
| "starts_with [] (p # ps) = False"
| "starts_with (c # cs) (p # ps) = (c = p \<and> starts_with cs ps)"

text \<open>\<open>String.prototype.includes\<close>: the argument occurs as a contiguous substring.\<close>

fun str_includes :: "string \<Rightarrow> string \<Rightarrow> bool" where
  "str_includes [] sub = (sub = [])"
| "str_includes (c # cs) sub = (starts_with (c # cs) sub \<or> str_includes cs sub)"

text \<open>\<open>Array.prototype.join\<close> on an array of strings.\<close>

fun join :: "string \<Rightarrow> string list \<Rightarrow> string" where
  "join sep [] = []"
| "join sep [x] = x"
| "join sep (x # y # ys) = x @ sep @ join sep (y # ys)"

text \<open>
  An optional string is truthy when it is present and not empty; \<open>a || b\<close> on optional
  strings yields the first truthy operand, else the second.
\<close>

definition truthy :: "string option \<Rightarrow> bool" where
  "truthy v = (case v of None \<Rightarrow> False | Some s \<Rightarrow> s \<noteq> [])"

definition js_or :: "string option \<Rightarrow> string option \<Rightarrow> string option" where
  "js_or a b = (if truthy a then a else b)"

text \<open>A thrown \<open>Error\<close> is its message.\<close>

datatype error = Error string

text \<open>
  The outcome of an awaited promise: it resolves with a value, rejects with an error, or
  never settles, in which case the code after the \<open>await\<close> never runs.
\<close>

datatype 'a completion = Returns 'a | Throws error | NeverSettles

text \<open>Parsed JSON, as \<open>JSON.parse\<close> returns it.\<close>

datatype json =
    JNull
  | JBool bool
  | JNumber real
  | JString string
  | JArray "json list"
  | JObject "(string \<times> json) list"

text \<open>
  A parsed value in a condition: \<open>null\<close>, \<open>false\<close>, 0 and the empty string are falsy, every
  object and array is truthy.
\<close>

definition truthy_json :: "json \<Rightarrow> bool" where
  "truthy_json v =
     (case v of
        JNull \<Rightarrow> False
      | JBool b \<Rightarrow> b
      | JNumber x \<Rightarrow> x \<noteq> 0
      | JString t \<Rightarrow> t \<noteq> []
      | JArray xs \<Rightarrow> True
      | JObject fs \<Rightarrow> True)"

text \<open>
  The fields of an object are kept in the order of their creation, each key once. Setting
  a key that is there replaces its value in place; a new key goes to the end.
\<close>

fun set_field :: "string \<Rightarrow> json \<Rightarrow> (string \<times> json) list \<Rightarrow> (string \<times> json) list" where
  "set_field k v [] = [(k, v)]"
| "set_field k v ((k', v') # fs) =
     (if k' = k then (k, v) # fs else (k', v') # set_field k v fs)"

text \<open>The decimal numeral of an index, as a property key.\<close>

function decimal :: "nat \<Rightarrow> string" where
  "decimal n =
     (if n < 10 then [''0123456789'' ! n]
      else decimal (n div 10) @ [''0123456789'' ! (n mod 10)])"
  by pat_completeness auto
termination
  by (relation "measure id") auto

text \<open>
  The own enumerable properties that a spread \<open>{...v}\<close> copies: the fields of an object, the
  elements of an array and the characters of a string under their indices, and nothing of
  a number, a boolean or \<open>null\<close>.
\<close>

definition spread :: "json \<Rightarrow> (string \<times> json) list" where
  "spread v =
     (case v of
        JObject fs \<Rightarrow> fs
      | JArray xs \<Rightarrow> zip (map decimal [0..<length xs]) xs
      | JString t \<Rightarrow> zip (map decimal [0..<length t]) (map (\<lambda>c. JString [c]) t)
      | JNull \<Rightarrow> []
      | JBool b \<Rightarrow> []
      | JNumber x \<Rightarrow> [])"

section \<open>Data model\<close>

datatype level = Low | Medium | High

datatype operation =
    SeqScan | IndexScan | IndexOnlyScan | BitmapHeapScan | HashJoin | NestedLoop
  | Sort | Aggregate | Limit | Other

record QueryFingerprint =
  hash :: string
  pattern :: string
  tables :: "string list"
  joinCount :: int
  whereClauseComplexity :: int

record Cost =
  startup :: int
  total_cost :: int

record PlanAnalysisNode =
  nodeId :: string
  operation :: operation
  estimatedRows :: "int option"
  actualRows :: "int option"
  cost :: "Cost option"
  hotnessScore :: int
  node_explanation :: string

record OptimizationSuggestion =
  title :: string
  severity :: level
  reason :: string
  change :: string
  estimatedImpact :: string

record Antipattern =
  ap_name :: string
  ap_severity :: level
  ap_explain :: string

record ExplanationResult =
  summary :: string
  walkthrough :: "string list"
  planAnalysis :: "PlanAnalysisNode list"
  optimizations :: "OptimizationSuggestion list"
  antipatterns :: "Antipattern list"
  rewrittenSQL :: "string option"
  confidence :: level
  fingerprint :: QueryFingerprint
  executionTimeMs :: real

subsection \<open>The objects at run time\<close>

text \<open>
  A value of one of these types is, at run time, an object with the fields of its literal
  in their order. A number that is \<open>null\<close> is the value \<open>null\<close>; an absent \<open>rewrittenSQL\<close>
  is no field.
\<close>

definition json_of_level :: "level \<Rightarrow> json" where
  "json_of_level l =
     (case l of Low \<Rightarrow> JString ''low'' | Medium \<Rightarrow> JString ''medium'' | High \<Rightarrow> JString ''high'')"

definition json_of_operation :: "operation \<Rightarrow> json" where
  "json_of_operation operation' =
     (case operation' of
        SeqScan \<Rightarrow> JString ''SeqScan''
      | IndexScan \<Rightarrow> JString ''IndexScan''
      | IndexOnlyScan \<Rightarrow> JString ''IndexOnlyScan''
      | BitmapHeapScan \<Rightarrow> JString ''BitmapHeapScan''
      | HashJoin \<Rightarrow> JString ''HashJoin''
      | NestedLoop \<Rightarrow> JString ''NestedLoop''
      | Sort \<Rightarrow> JString ''Sort''
      | Aggregate \<Rightarrow> JString ''Aggregate''
      | Limit \<Rightarrow> JString ''Limit''
      | Other \<Rightarrow> JString ''Other'')"

definition json_of_number :: "int option \<Rightarrow> json" where
  "json_of_number n = (case n of None \<Rightarrow> JNull | Some i \<Rightarrow> JNumber (of_int i))"

definition json_of_Cost :: "Cost option \<Rightarrow> json" where
  "json_of_Cost c =
     (case c of
        None \<Rightarrow> JNull
      | Some c' \<Rightarrow>
          JObject [(''startup'', JNumber (of_int (startup c'))),
                   (''total'', JNumber (of_int (total_cost c')))])"

definition json_of_PlanAnalysisNode :: "PlanAnalysisNode \<Rightarrow> json" where
  "json_of_PlanAnalysisNode n =
     JObject [(''nodeId'', JString (nodeId n)),
              (''operation'', json_of_operation (operation n)),
              (''estimatedRows'', json_of_number (estimatedRows n)),
              (''actualRows'', json_of_number (actualRows n)),
              (''cost'', json_of_Cost (cost n)),
              (''hotnessScore'', JNumber (of_int (hotnessScore n))),
              (''explanation'', JString (node_explanation n))]"

definition json_of_OptimizationSuggestion :: "OptimizationSuggestion \<Rightarrow> json" where
  "json_of_OptimizationSuggestion o' =
     JObject [(''title'', JString (title o')),
              (''severity'', json_of_level (severity o')),
              (''reason'', JString (reason o')),
              (''change'', JString (change o')),
              (''estimatedImpact'', JString (estimatedImpact o'))]"

definition json_of_Antipattern :: "Antipattern \<Rightarrow> json" where
  "json_of_Antipattern a =
     JObject [(''name'', JString (ap_name a)),
              (''severity'', json_of_level (ap_severity a)),
              (''explain'', JString (ap_explain a))]"

definition json_of_QueryFingerprint :: "QueryFingerprint \<Rightarrow> json" where
  "json_of_QueryFingerprint fp =
     JObject [(''hash'', JString (hash fp)),
              (''pattern'', JString (pattern fp)),
              (''tables'', JArray (map JString (tables fp))),
              (''joinCount'', JNumber (of_int (joinCount fp))),
              (''whereClauseComplexity'', JNumber (of_int (whereClauseComplexity fp)))]"

definition json_of_ExplanationResult :: "ExplanationResult \<Rightarrow> json" where
  "json_of_ExplanationResult r =
     JObject ([(''summary'', JString (summary r)),
               (''walkthrough'', JArray (map JString (walkthrough r))),
               (''planAnalysis'', JArray (map json_of_PlanAnalysisNode (planAnalysis r))),
               (''optimizations'', JArray (map json_of_OptimizationSuggestion (optimizations r))),
               (''antipatterns'', JArray (map json_of_Antipattern (antipatterns r)))]
              @ (case rewrittenSQL r of None \<Rightarrow> [] | Some t \<Rightarrow> [(''rewrittenSQL'', JString t)])
              @ [(''confidence'', json_of_level (confidence r)),
                 (''fingerprint'', json_of_QueryFingerprint (fingerprint r)),
                 (''executionTimeMs'', JNumber (executionTimeMs r))])"

section \<open>services/llmProvider.ts\<close>

record LLMRequest =
  sql :: string
  sanitizedSql :: "string option"
  dialect :: string
  schema :: "string option"
  explainPlan :: "string option"
  privacyMode :: bool

subsection \<open>OpenAIProvider\<close>

text \<open>The variables of \<open>process.env\<close> the service reads.\<close>

record process_env =
  LLM_PROVIDER :: "string option"
  OPENAI_API_KEY :: "string option"
  NODE_ENV :: "string option"

datatype provider = OpenAIProvider string | LocalStubProvider

text \<open>
  The constructor: \<open>apiKey || process.env.OPENAI_API_KEY || ''\<close>, and an empty key throws.
\<close>

definition new_OpenAIProvider :: "process_env \<Rightarrow> string option \<Rightarrow> error + provider" where
  "new_OpenAIProvider env apiKey =
     (case js_or (js_or apiKey (OPENAI_API_KEY env)) (Some []) of
        Some k \<Rightarrow>
          if k = [] then Inl (Error ''OPENAI_API_KEY environment variable not set'')
          else Inr (OpenAIProvider k)
      | None \<Rightarrow> Inl (Error ''OPENAI_API_KEY environment variable not set''))"

definition buildPrompt :: "LLMRequest \<Rightarrow> string" where
  "buildPrompt request =
     (let used_sql =
            (if privacyMode request
             then (case js_or (sanitizedSql request) (Some (sql request)) of
                     Some s \<Rightarrow> s | None \<Rightarrow> sql request)
             else sql request);
          p0 = ''Analyze this '' @ dialect request @ '' SQL query:'' @ [CHR 10, CHR 10] @ used_sql;
          p1 = (case schema request of
                  Some s \<Rightarrow> if s \<noteq> [] then p0 @ [CHR 10, CHR 10] @ ''Schema: '' @ s else p0
                | None \<Rightarrow> p0);
          p2 = (case explainPlan request of
                  Some e \<Rightarrow>
                    if e \<noteq> [] then p1 @ [CHR 10, CHR 10] @ ''EXPLAIN output:'' @ [CHR 10] @ e
                    else p1
                | None \<Rightarrow> p1);
          p3 = p2 @ [CHR 10, CHR 10] @ ''Privacy mode: ''
                 @ (if privacyMode request then ''enabled'' else ''disabled'')
      in p3 @ [CHR 10, CHR 10] @ ''Respond with JSON only.'')"

text \<open>
  \<open>explainSQL\<close> of the remote variant. \<open>JSON_parse\<close> is the runtime's \<open>JSON.parse\<close>
  (\<open>None\<close> where it throws a syntax error) and \<open>chat\<close> the completion endpoint, called with
  the user prompt under the fixed system prompt and yielding the content of the first choice,
  if there is one (\<open>reply_text\<close> is \<open>content || ''\<close>). The parsed reply is returned under
  the cast \<open>as ExplanationResult\<close>, which checks nothing, so the value is whatever JSON the
  reply held. Reading
  \<open>result.summary\<close> for the debug log throws inside the \<open>try\<close> when the reply is
  \<open>null\<close>; on every other JSON value the property read yields a value or \<open>undefined\<close>.
\<close>

definition reply_text :: "string option \<Rightarrow> string" where
  "reply_text content = (case js_or content (Some []) of Some t \<Rightarrow> t | None \<Rightarrow> [])"

definition OpenAIProvider_explainSQL ::
  "(string \<Rightarrow> json option) \<Rightarrow> (string \<Rightarrow> string option completion) \<Rightarrow> LLMRequest
     \<Rightarrow> json completion" where
  "OpenAIProvider_explainSQL JSON_parse chat request =
     (case chat (buildPrompt request) of
        NeverSettles \<Rightarrow> NeverSettles
      | Throws e \<Rightarrow> Throws e
      | Returns content \<Rightarrow>
          (let responseText = reply_text content
           in case JSON_parse responseText of
                None \<Rightarrow> Throws (Error ''Invalid LLM response format'')
              | Some result \<Rightarrow>
                  if result = JNull then Throws (Error ''Invalid LLM response format'')
                  else Returns result))"

subsection \<open>LocalStubProvider\<close>

text \<open>
  \<open>explainSQL\<close> of the stand-in. Its first argument is the number that the call
  \<open>Math.random()\<close> returns in this invocation.
\<close>

definition LocalStubProvider_explainSQL :: "real \<Rightarrow> LLMRequest \<Rightarrow> ExplanationResult" where
  "LocalStubProvider_explainSQL random request =
     (let isSelect = str_includes (toUpperCase (sql request)) ''SELECT'';
          isJoin = str_includes (toUpperCase (sql request)) ''JOIN'';
          hasWhere = str_includes (toUpperCase (sql request)) ''WHERE''
      in \<lparr> summary =
             (if isSelect
              then ''Execute a '' @ (if isJoin then ''join '' else []) @ ''SELECT query''
                     @ (if hasWhere then '' with filtering'' else [])
              else ''Execute a data modification''),
           walkthrough =
             [if isSelect then ''Parse SELECT columns'' else ''Parse statement'',
              if isJoin then ''Join tables'' else ''Access table'',
              if hasWhere then ''Apply WHERE filters'' else ''Process all rows'',
              ''Return results''],
           planAnalysis =
             [\<lparr> nodeId = ''node_0'',
                operation = (if hasWhere then SeqScan else SeqScan),
                estimatedRows = Some 1000,
                actualRows = None,
                cost = Some \<lparr> startup = 0, total_cost = 100 \<rparr>,
                hotnessScore = (if hasWhere then 75 else 30),
                node_explanation = ''Basic table scan'' \<rparr>],
           optimizations =
             (if hasWhere
              then [\<lparr> title = ''Add index on filtered column'',
                       severity = Medium,
                       reason = ''WHERE clause would benefit from index'',
                       change = ''CREATE INDEX idx_filtered ON table(column)'',
                       estimatedImpact = ''2-5x faster filtering'' \<rparr>]
              else []),
           antipatterns = [],
           rewrittenSQL = Some (sql request),
           confidence = Low,
           fingerprint =
             \<lparr> hash = ''stub_hash_1234567890'',
               pattern = ''STUB_PATTERN'',
               tables = [''stub_table''],
               joinCount = (if isJoin then 1 else 0),
               whereClauseComplexity = (if hasWhere then 1 else 0) \<rparr>,
           executionTimeMs = random * 100 \<rparr>)"

subsection \<open>createLLMProvider\<close>

definition createLLMProvider :: "process_env \<Rightarrow> string option \<Rightarrow> error + provider" where
  "createLLMProvider env providerName =
     (let name = (case js_or (js_or providerName (LLM_PROVIDER env)) (Some ''openai'') of
                    Some p \<Rightarrow> p | None \<Rightarrow> ''openai'')
      in if name = ''openai'' then new_OpenAIProvider env None
         else if name = ''stub'' \<or> NODE_ENV env = Some ''test'' then Inr LocalStubProvider
         else Inl (Error (''Unknown LLM provider: '' @ name)))"

subsection \<open>The shape of a reply\<close>

text \<open>
  The shape the system prompt gives under \<open>Expected JSON Schema\<close>: the fields it lists, with
  the types it gives them; \<open>rewrittenSQL\<close> is the one it marks \<open>if applicable\<close>.
\<close>

definition field :: "json \<Rightarrow> string \<Rightarrow> json option" where
  "field v k = (case v of JObject fs \<Rightarrow> map_of fs k | _ \<Rightarrow> None)"

definition is_string :: "json option \<Rightarrow> bool" where
  "is_string v = (case v of Some (JString _) \<Rightarrow> True | _ \<Rightarrow> False)"

definition is_number :: "json option \<Rightarrow> bool" where
  "is_number v = (case v of Some (JNumber _) \<Rightarrow> True | _ \<Rightarrow> False)"

definition is_number_or_null :: "json option \<Rightarrow> bool" where
  "is_number_or_null v = (case v of Some (JNumber _) \<Rightarrow> True | Some JNull \<Rightarrow> True | _ \<Rightarrow> False)"

definition is_level :: "json option \<Rightarrow> bool" where
  "is_level v =
     (v = Some (JString ''low'') \<or> v = Some (JString ''medium'') \<or> v = Some (JString ''high''))"

definition is_operation :: "json option \<Rightarrow> bool" where
  "is_operation v =
     (case v of
        Some (JString s) \<Rightarrow>
          s \<in> set [''SeqScan'', ''IndexScan'', ''IndexOnlyScan'', ''BitmapHeapScan'', ''HashJoin'',
                    ''NestedLoop'', ''Sort'', ''Aggregate'', ''Limit'', ''Other'']
      | _ \<Rightarrow> False)"

definition is_array_of :: "(json \<Rightarrow> bool) \<Rightarrow> json option \<Rightarrow> bool" where
  "is_array_of p v = (case v of Some (JArray xs) \<Rightarrow> list_all p xs | _ \<Rightarrow> False)"

definition is_cost :: "json option \<Rightarrow> bool" where
  "is_cost v =
     (case v of
        Some JNull \<Rightarrow> True
      | Some (JObject fs) \<Rightarrow> is_number (map_of fs ''startup'') \<and> is_number (map_of fs ''total'')
      | _ \<Rightarrow> False)"

definition is_PlanAnalysisNode :: "json \<Rightarrow> bool" where
  "is_PlanAnalysisNode v =
     (is_string (field v ''nodeId'') \<and> is_operation (field v ''operation'')
      \<and> is_number_or_null (field v ''estimatedRows'') \<and> is_number_or_null (field v ''actualRows'')
      \<and> is_cost (field v ''cost'') \<and> is_number (field v ''hotnessScore'')
      \<and> is_string (field v ''explanation''))"

definition is_OptimizationSuggestion :: "json \<Rightarrow> bool" where
  "is_OptimizationSuggestion v =
     (is_string (field v ''title'') \<and> is_level (field v ''severity'')
      \<and> is_string (field v ''reason'') \<and> is_string (field v ''change'')
      \<and> is_string (field v ''estimatedImpact''))"

definition is_Antipattern :: "json \<Rightarrow> bool" where
  "is_Antipattern v =
     (is_string (field v ''name'') \<and> is_level (field v ''severity'')
      \<and> is_string (field v ''explain''))"

definition matches_ExplanationResult :: "json \<Rightarrow> bool" where
  "matches_ExplanationResult v =
     (is_string (field v ''summary'')
      \<and> is_array_of (\<lambda>x. is_string (Some x)) (field v ''walkthrough'')
      \<and> is_array_of is_PlanAnalysisNode (field v ''planAnalysis'')
      \<and> is_array_of is_OptimizationSuggestion (field v ''optimizations'')
      \<and> is_array_of is_Antipattern (field v ''antipatterns'')
      \<and> (field v ''rewrittenSQL'' = None \<or> is_string (field v ''rewrittenSQL''))
      \<and> is_level (field v ''confidence''))"

section \<open>services/engineService.ts\<close>

record Recommendation =
  rec_type :: string
  rec_table :: string
  rec_columns :: "string list"
  rec_reason :: string

text \<open>
  The functions imported from the engine package, and the runtime's \<open>JSON.parse\<close> and
  \<open>JSON.stringify\<close>, are parameters of the model. A parser's result is \<open>Inl\<close> where it
  throws. The type \<open>'plan\<close> is the package's \<open>ExplainNode\<close>.
\<close>

record 'plan engine =
  JSON_parse :: "string \<Rightarrow> json option"
  JSON_stringify :: "'plan \<Rightarrow> string"
  fingerprint_sql :: "string \<Rightarrow> QueryFingerprint"
  sanitizeSQL :: "string \<Rightarrow> bool \<Rightarrow> string"
  analyzeExplainPlan :: "'plan \<Rightarrow> Recommendation list"
  parsePostgresExplainJson :: "json list \<Rightarrow> error + 'plan"
  parsePostgresExplainText :: "string \<Rightarrow> error + 'plan"
  parseMysqlExplainJson :: "json \<Rightarrow> error + 'plan"
  parseSqliteExplainQueryPlan :: "string \<Rightarrow> error + 'plan"

text \<open>
  \<open>parseExplainPlan\<close>. In the postgres branch the \<open>catch\<close> covers the whole \<open>try\<close> block,
  so an error of the JSON-shape parser also ends in the text parser; a reply that parses
  to something other than an array leaves the \<open>if\<close> without returning. In the mysql
  branch every error inside the \<open>try\<close> is replaced by the one message.
\<close>

definition parseExplainPlan :: "'plan engine \<Rightarrow> string \<Rightarrow> string \<Rightarrow> error + 'plan" where
  "parseExplainPlan eng explainOutput dialect' =
     (let postgres_branch =
            (if dialect' = ''postgres''
             then (case JSON_parse eng explainOutput of
                     None \<Rightarrow> Some (parsePostgresExplainText eng explainOutput)
                   | Some (JArray xs) \<Rightarrow>
                       (case parsePostgresExplainJson eng xs of
                          Inr plan \<Rightarrow> Some (Inr plan)
                        | Inl _ \<Rightarrow> Some (parsePostgresExplainText eng explainOutput))
                   | Some _ \<Rightarrow> None)
             else None)
      in case postgres_branch of
           Some returned \<Rightarrow> returned
         | None \<Rightarrow>
             if dialect' = ''mysql''
             then (case JSON_parse eng explainOutput of
                     None \<Rightarrow> Inl (Error ''MySQL text format EXPLAIN not yet supported'')
                   | Some parsed \<Rightarrow>
                       (case parseMysqlExplainJson eng parsed of
                          Inr plan \<Rightarrow> Inr plan
                        | Inl _ \<Rightarrow> Inl (Error ''MySQL text format EXPLAIN not yet supported'')))
             else if dialect' = ''sqlite'' then parseSqliteExplainQueryPlan eng explainOutput
             else Inl (Error (''Unsupported dialect: '' @ dialect')))"

text \<open>The suggestion built from one recommendation; \<open>columns[0]\<close> of an empty array prints as
  \<open>undefined\<close> in the template.\<close>

definition heuristic_suggestion :: "Recommendation \<Rightarrow> OptimizationSuggestion" where
  "heuristic_suggestion r =
     \<lparr> title = ''Add '' @ rec_type r @ '' index on '' @ rec_table r @ ''(''
                 @ join '','' (rec_columns r) @ '')'',
       severity =
         (if str_includes (rec_reason r) ''missing'' \<or> str_includes (rec_reason r) ''sequential''
          then High else Medium),
       reason = rec_reason r,
       change = ''CREATE INDEX idx_'' @ rec_table r @ ''_''
                  @ (case rec_columns r of [] \<Rightarrow> ''undefined'' | c # _ \<Rightarrow> c)
                  @ '' ON '' @ rec_table r @ ''('' @ join '','' (rec_columns r) @ '')'',
       estimatedImpact = ''2-10x faster queries'' \<rparr>"

text \<open>
  The row written to the \<open>explanationCache\<close> table. Its \<open>explanation\<close> is the value the
  service holds, and its \<open>confidence\<close> what the property read \<open>explanation.confidence\<close>
  yields, nothing where the value has no such property.
\<close>

record ExplanationCacheRow =
  queryHash :: string
  queryPattern :: string
  row_sql :: string
  row_sanitizedSql :: string
  row_dialect :: string
  row_explanation :: json
  row_confidence :: "json option"

text \<open>
  What a run does to its collaborators, in order: warnings and errors it logs (debug and
  info messages are left out), calls of the explanation backend, rows it asks the database
  to create, commands it sends to Redis, and the metrics it records.
\<close>

datatype log_level = Warn | Err

datatype event =
    Log log_level string
  | LLMCall provider LLMRequest
  | DbCreate ExplanationCacheRow
  | RedisGet string
  | RedisSetEx string nat string
  | RedisSetNX string string
  | RedisExpire string nat
  | RedisDel string
  | CacheHit string
  | CacheMiss string
  | RequestMetrics nat

text \<open>
  The collaborators of a process: the engine package, the environment, the completion
  endpoint of the remote backend (called with the API key and the user prompt), the
  database write, and \<open>JSON.stringify\<close> on the values the route caches.
\<close>

record 'plan world =
  eng :: "'plan engine"
  environment :: process_env
  completions :: "string \<Rightarrow> string \<Rightarrow> string option completion"
  prisma_create :: "ExplanationCacheRow \<Rightarrow> unit completion"
  stringify_value :: "json \<Rightarrow> string"

text \<open>
  \<open>llmProvider.explainSQL(request)\<close>: the method of the variant the factory built. What it
  resolves with is the value the service goes on with: the object the stand-in builds, or
  whatever the remote variant parsed from the reply.
\<close>

definition explainSQL :: "'plan world \<Rightarrow> real \<Rightarrow> provider \<Rightarrow> LLMRequest \<Rightarrow> json completion" where
  "explainSQL w random p request =
     (case p of
        LocalStubProvider \<Rightarrow>
          Returns (json_of_ExplanationResult (LocalStubProvider_explainSQL random request))
      | OpenAIProvider key \<Rightarrow>
          OpenAIProvider_explainSQL (JSON_parse (eng w)) (completions w key) request)"

text \<open>
  \<open>explainSQLService\<close>, with the events of the run; \<open>random\<close> is the value of
  \<open>Math.random()\<close> should the stand-in be called. Its steps first: the parse of a supplied
  plan inside its \<open>try\<close>, the request handed to the backend, the merge of the heuristics
  (outside any \<open>try\<close>: an error there rejects the call), and the row for the database.
\<close>

definition parse_supplied_plan ::
  "'plan engine \<Rightarrow> string option \<Rightarrow> string \<Rightarrow> 'plan option \<times> event list" where
  "parse_supplied_plan en explainPlan' dialect' =
     (case explainPlan' of
        Some text \<Rightarrow>
          if text \<noteq> []
          then (case parseExplainPlan en text dialect' of
                  Inr plan \<Rightarrow> (Some plan, [])
                | Inl e \<Rightarrow> (None, [Log Warn ''Failed to parse EXPLAIN plan'']))
          else (None, [])
      | None \<Rightarrow> (None, []))"

definition llm_request ::
  "'plan engine \<Rightarrow> string \<Rightarrow> string \<Rightarrow> string \<Rightarrow> string option \<Rightarrow> string option \<Rightarrow> 'plan option
     \<Rightarrow> LLMRequest" where
  "llm_request en originalSql sanitizedSql' dialect' schema' explainPlan' parsedPlan =
     \<lparr> sql = originalSql,
       sanitizedSql = Some sanitizedSql',
       dialect = dialect',
       schema = schema',
       explainPlan =
         (if truthy explainPlan' then explainPlan'
          else (case parsedPlan of
                  Some plan \<Rightarrow> Some (JSON_stringify en plan)
                | None \<Rightarrow> None)),
       privacyMode = True \<rparr>"

text \<open>
  \<open>explanation.optimizations.push(...)\<close>: the new elements go to the end of the array that
  the property holds, in place. Where the value has no such property, or the property
  holds something that is not an array, the call throws a \<open>TypeError\<close>, with the message
  that Node gives it.
\<close>

definition push_optimizations :: "json \<Rightarrow> json list \<Rightarrow> error + json" where
  "push_optimizations explanation new =
     (case explanation of
        JObject fs \<Rightarrow>
          (case map_of fs ''optimizations'' of
             Some (JArray xs) \<Rightarrow>
               Inr (JObject (set_field ''optimizations'' (JArray (xs @ new)) fs))
           | Some JNull \<Rightarrow> Inl (Error ''Cannot read properties of null (reading 'push')'')
           | Some other \<Rightarrow> Inl (Error ''explanation.optimizations.push is not a function'')
           | None \<Rightarrow> Inl (Error ''Cannot read properties of undefined (reading 'push')''))
      | other \<Rightarrow> Inl (Error ''Cannot read properties of undefined (reading 'push')''))"

definition merge_heuristics ::
  "'plan engine \<Rightarrow> 'plan option \<Rightarrow> json \<Rightarrow> error + json" where
  "merge_heuristics en parsedPlan explanation =
     (case parsedPlan of
        Some plan \<Rightarrow>
          push_optimizations explanation
            (map (\<lambda>r. json_of_OptimizationSuggestion (heuristic_suggestion r))
               (analyzeExplainPlan en plan))
      | None \<Rightarrow> Inr explanation)"

definition cache_row ::
  "'plan engine \<Rightarrow> string \<Rightarrow> string \<Rightarrow> json \<Rightarrow> ExplanationCacheRow" where
  "cache_row en originalSql dialect' explanation =
     (let fp = fingerprint_sql en originalSql
      in \<lparr> queryHash = hash fp,
           queryPattern = pattern fp,
           row_sql = originalSql,
           row_sanitizedSql = sanitizeSQL en originalSql True,
           row_dialect = dialect',
           row_explanation = explanation,
           row_confidence = field explanation ''confidence'' \<rparr>)"

definition explainSQLService ::
  "'plan world \<Rightarrow> real \<Rightarrow> string \<Rightarrow> string \<Rightarrow> string \<Rightarrow> string option \<Rightarrow> string option
     \<Rightarrow> json completion \<times> event list" where
  "explainSQLService w random originalSql sanitizedSql' dialect' schema' explainPlan' =
     (case createLLMProvider (environment w) None of
        Inl e \<Rightarrow> (Throws e, [])
      | Inr llmProvider \<Rightarrow>
          (let parsed = parse_supplied_plan (eng w) explainPlan' dialect';
               parsedPlan = fst parsed;
               request = llm_request (eng w) originalSql sanitizedSql' dialect' schema' explainPlan'
                           parsedPlan;
               evs = snd parsed @ [LLMCall llmProvider request]
           in case explainSQL w random llmProvider request of
                NeverSettles \<Rightarrow> (NeverSettles, evs)
              | Throws e \<Rightarrow> (Throws e, evs)
              | Returns explanation0 \<Rightarrow>
                  (case merge_heuristics (eng w) parsedPlan explanation0 of
                     Inl e \<Rightarrow> (Throws e, evs)
                   | Inr explanation \<Rightarrow>
                       (let row = cache_row (eng w) originalSql dialect' explanation
                        in case prisma_create w row of
                             Returns _ \<Rightarrow> (Returns explanation, evs @ [DbCreate row])
                           | Throws e \<Rightarrow>
                               (Returns explanation,
                                evs @ [DbCreate row,
                                       Log Warn ''Failed to cache explanation in database''])
                           | NeverSettles \<Rightarrow> (NeverSettles, evs @ [DbCreate row])))))"

section \<open>lib/cache.ts\<close>

text \<open>
  The Redis server as its client sees it: a clock in seconds, and under each key a text
  with the instant at which it expires, if it has one. While the server is unreachable
  every command of the client rejects.
\<close>

record redis =
  reachable :: bool
  clock :: nat
  entries :: "string \<Rightarrow> (string \<times> nat option) option"

definition live :: "redis \<Rightarrow> string \<Rightarrow> string option" where
  "live rd k =
     (case entries rd k of
        None \<Rightarrow> None
      | Some (v, None) \<Rightarrow> Some v
      | Some (v, Some expiry) \<Rightarrow> if clock rd < expiry then Some v else None)"

definition elapse :: "nat \<Rightarrow> redis \<Rightarrow> redis" where
  "elapse d rd = rd \<lparr> clock := clock rd + d \<rparr>"

definition client_get :: "redis \<Rightarrow> string \<Rightarrow> error + string option" where
  "client_get rd k = (if reachable rd then Inr (live rd k) else Inl (Error ''connection refused''))"

definition client_setEx :: "redis \<Rightarrow> string \<Rightarrow> nat \<Rightarrow> string \<Rightarrow> error + redis" where
  "client_setEx rd k ttl v =
     (if reachable rd
      then Inr (rd \<lparr> entries := (entries rd)(k \<mapsto> (v, Some (clock rd + ttl))) \<rparr>)
      else Inl (Error ''connection refused''))"

definition client_setNX :: "redis \<Rightarrow> string \<Rightarrow> string \<Rightarrow> error + bool \<times> redis" where
  "client_setNX rd k v =
     (if reachable rd
      then (case live rd k of
              None \<Rightarrow> Inr (True, rd \<lparr> entries := (entries rd)(k \<mapsto> (v, None)) \<rparr>)
            | Some _ \<Rightarrow> Inr (False, rd))
      else Inl (Error ''connection refused''))"

definition client_expire :: "redis \<Rightarrow> string \<Rightarrow> nat \<Rightarrow> error + redis" where
  "client_expire rd k ttl =
     (if reachable rd
      then (case live rd k of
              None \<Rightarrow> Inr rd
            | Some v \<Rightarrow> Inr (rd \<lparr> entries := (entries rd)(k \<mapsto> (v, Some (clock rd + ttl))) \<rparr>))
      else Inl (Error ''connection refused''))"

definition client_del :: "redis \<Rightarrow> string \<Rightarrow> error + redis" where
  "client_del rd k =
     (if reachable rd then Inr (rd \<lparr> entries := (entries rd)(k := None) \<rparr>)
      else Inl (Error ''connection refused''))"

definition CACHE_TTL_SECONDS :: nat where
  "CACHE_TTL_SECONDS = 3600"

definition STAMPEDE_LOCK_TTL_SECONDS :: nat where
  "STAMPEDE_LOCK_TTL_SECONDS = 10"

text \<open>
  \<open>cacheGet\<close>: the parsed text, or \<open>null\<close> where the key holds nothing, the text is empty, or
  the read or the parse throws. \<open>parse\<close> is \<open>JSON.parse\<close>, \<open>None\<close> where it throws.
\<close>

definition cacheGet ::
  "(string \<Rightarrow> json option) \<Rightarrow> redis \<Rightarrow> string \<Rightarrow> json \<times> event list" where
  "cacheGet parse rd key =
     (case client_get rd key of
        Inl e \<Rightarrow> (JNull, [RedisGet key, Log Err ''Cache get failed''])
      | Inr None \<Rightarrow> (JNull, [RedisGet key])
      | Inr (Some v) \<Rightarrow>
          if v = [] then (JNull, [RedisGet key])
          else (case parse v of
                  None \<Rightarrow> (JNull, [RedisGet key, Log Err ''Cache get failed''])
                | Some x \<Rightarrow> (x, [RedisGet key])))"

definition cacheSet ::
  "(json \<Rightarrow> string) \<Rightarrow> redis \<Rightarrow> string \<Rightarrow> json \<Rightarrow> nat option
     \<Rightarrow> redis \<times> event list" where
  "cacheSet stringify rd key v ttl =
     (let seconds = (case ttl of Some t \<Rightarrow> if t = 0 then CACHE_TTL_SECONDS else t
                                | None \<Rightarrow> CACHE_TTL_SECONDS)
      in case client_setEx rd key seconds (stringify v) of
           Inr rd' \<Rightarrow> (rd', [RedisSetEx key seconds (stringify v)])
         | Inl e \<Rightarrow> (rd, [RedisSetEx key seconds (stringify v), Log Err ''Cache set failed'']))"

definition acquireStampedeLock :: "redis \<Rightarrow> string \<Rightarrow> bool \<times> redis \<times> event list" where
  "acquireStampedeLock rd key =
     (let lockKey = ''lock:'' @ key
      in case client_setNX rd lockKey ''1'' of
           Inl e \<Rightarrow> (False, rd, [RedisSetNX lockKey ''1'', Log Err ''Stampede lock acquisition failed''])
         | Inr (acquired, rd1) \<Rightarrow>
             if acquired
             then (case client_expire rd1 lockKey STAMPEDE_LOCK_TTL_SECONDS of
                     Inr rd2 \<Rightarrow>
                       (True, rd2,
                        [RedisSetNX lockKey ''1'', RedisExpire lockKey STAMPEDE_LOCK_TTL_SECONDS])
                   | Inl e \<Rightarrow>
                       (False, rd1,
                        [RedisSetNX lockKey ''1'', RedisExpire lockKey STAMPEDE_LOCK_TTL_SECONDS,
                         Log Err ''Stampede lock acquisition failed'']))
             else (False, rd1, [RedisSetNX lockKey ''1'']))"

definition releaseStampedeLock :: "redis \<Rightarrow> string \<Rightarrow> redis \<times> event list" where
  "releaseStampedeLock rd key =
     (let lockKey = ''lock:'' @ key
      in case client_del rd lockKey of
           Inr rd' \<Rightarrow> (rd', [RedisDel lockKey])
         | Inl e \<Rightarrow> (rd, [RedisDel lockKey, Log Err ''Stampede lock release failed'']))"

section \<open>routes/explain.ts\<close>

text \<open>A request body that passed \<open>ExplainRequestSchema\<close>, defaults filled in.\<close>

record ExplainRequest =
  rq_sql :: string
  rq_dialect :: string
  rq_schema :: "string option"
  rq_explainPlan :: "string option"
  rq_privacyMode :: bool
  rq_cache :: bool

text \<open>
  The \<open>data\<close> of a successful reply, \<open>{...result, cached: fromCache, fingerprint: fp}\<close>:
  the properties of the result, then the flag, then the fingerprint of the request's SQL.
  The envelope's request id and timestamp are left out.
\<close>

definition response_data :: "QueryFingerprint \<Rightarrow> json \<Rightarrow> bool \<Rightarrow> json" where
  "response_data fp result fromCache =
     JObject (set_field ''fingerprint'' (json_of_QueryFingerprint fp)
                (set_field ''cached'' (JBool fromCache) (spread result)))"

datatype reply = Reply200 json | Reply400 string | Reply500 string

definition cacheKey :: "'plan world \<Rightarrow> ExplainRequest \<Rightarrow> string" where
  "cacheKey w req = ''explain:'' @ hash (fingerprint_sql (eng w) (rq_sql req))"

definition send_result :: "'plan world \<Rightarrow> ExplainRequest \<Rightarrow> json \<Rightarrow> bool \<Rightarrow> reply" where
  "send_result w req result fromCache =
     Reply200 (response_data (fingerprint_sql (eng w) (rq_sql req)) result fromCache)"

text \<open>
  The handler runs in three stretches, each ending where an awaited call settles. The
  lookup is a hit when what \<open>cacheGet\<close> returns is truthy.
\<close>

definition lookup :: "'plan world \<Rightarrow> redis \<Rightarrow> ExplainRequest \<Rightarrow> json option \<times> event list" where
  "lookup w rd req =
     (if rq_cache req
      then (case cacheGet (JSON_parse (eng w)) rd (cacheKey w req) of
              (cached, evs) \<Rightarrow>
                if truthy_json cached then (Some cached, evs @ [CacheHit ''explain''])
                else (None, evs))
      else (None, []))"

definition compute :: "'plan world \<Rightarrow> real \<Rightarrow> ExplainRequest \<Rightarrow> json completion \<times> event list" where
  "compute w random req =
     (let run = explainSQLService w random (rq_sql req)
                  (sanitizeSQL (eng w) (rq_sql req) (rq_privacyMode req))
                  (rq_dialect req) (rq_schema req) (rq_explainPlan req)
      in (fst run, CacheMiss ''explain'' # snd run))"

definition store :: "'plan world \<Rightarrow> redis \<Rightarrow> ExplainRequest \<Rightarrow> json \<Rightarrow> redis \<times> event list" where
  "store w rd req result =
     (if rq_cache req then cacheSet (stringify_value w) rd (cacheKey w req) result (Some 3600)
      else (rd, []))"

text \<open>
  The handler of \<open>POST /v1/explain\<close>. The body is what \<open>safeParse\<close> made of it, \<open>Inl\<close> with the
  message where validation failed. \<open>delay\<close> seconds pass between the cache lookup and the
  cache write while the explanation is computed. The reply is \<open>None\<close> when an awaited call
  never settles.
\<close>

definition explain_route ::
  "'plan world \<Rightarrow> nat \<Rightarrow> real \<Rightarrow> string + ExplainRequest \<Rightarrow> redis
     \<Rightarrow> reply option \<times> redis \<times> event list" where
  "explain_route w delay random body rd =
     (case body of
        Inl message \<Rightarrow> (Some (Reply400 (''Invalid request: '' @ message)), rd, [])
      | Inr req \<Rightarrow>
          (case lookup w rd req of
             (Some hit, evs) \<Rightarrow> (Some (send_result w req hit True), rd, evs @ [RequestMetrics 200])
           | (None, evs) \<Rightarrow>
               (case compute w random req of
                  (NeverSettles, evs2) \<Rightarrow> (None, rd, evs @ evs2)
                | (Throws (Error message), evs2) \<Rightarrow>
                    (Some (Reply500 message), rd,
                     evs @ evs2 @ [RequestMetrics 500, Log Err ''Explain endpoint error''])
                | (Returns result, evs2) \<Rightarrow>
                    (let stored = store w (elapse delay rd) req result
                     in (Some (send_result w req result False), fst stored,
                         evs @ evs2 @ snd stored @ [RequestMetrics 200])))))"

subsection \<open>Requests in flight together\<close>

text \<open>
  Requests are served by one thread that switches between them where a handler awaits.
  A task is a request with the stretch of the handler it has reached; a schedule names,
  step by step, the task that runs its next stretch, or lets time pass.
\<close>

datatype task =
    Arrived ExplainRequest
  | Missed ExplainRequest
  | Computed ExplainRequest json
  | Replied reply
  | Hung

definition task_step :: "'plan world \<Rightarrow> real \<Rightarrow> task \<Rightarrow> redis \<Rightarrow> task \<times> redis \<times> event list" where
  "task_step w random t rd =
     (case t of
        Arrived req \<Rightarrow>
          (case lookup w rd req of
             (Some hit, evs) \<Rightarrow> (Replied (send_result w req hit True), rd, evs @ [RequestMetrics 200])
           | (None, evs) \<Rightarrow> (Missed req, rd, evs))
      | Missed req \<Rightarrow>
          (case compute w random req of
             (NeverSettles, evs) \<Rightarrow> (Hung, rd, evs)
           | (Throws (Error message), evs) \<Rightarrow>
               (Replied (Reply500 message), rd,
                evs @ [RequestMetrics 500, Log Err ''Explain endpoint error''])
           | (Returns result, evs) \<Rightarrow> (Computed req result, rd, evs))
      | Computed req result \<Rightarrow>
          (let stored = store w rd req result
           in (Replied (send_result w req result False), fst stored,
               snd stored @ [RequestMetrics 200]))
      | Replied r \<Rightarrow> (Replied r, rd, [])
      | Hung \<Rightarrow> (Hung, rd, []))"

datatype move = Run nat | Wait nat

record server =
  tasks :: "task list"
  store_state :: redis
  trace :: "event list"

text \<open>\<open>randoms\<close> gives each task the number its call of \<open>Math.random()\<close> would return.\<close>

definition server_step :: "'plan world \<Rightarrow> (nat \<Rightarrow> real) \<Rightarrow> server \<Rightarrow> move \<Rightarrow> server" where
  "server_step w randoms sv m =
     (case m of
        Wait d \<Rightarrow> sv \<lparr> store_state := elapse d (store_state sv) \<rparr>
      | Run i \<Rightarrow>
          if i < length (tasks sv)
          then (case task_step w (randoms i) (tasks sv ! i) (store_state sv) of
                  (t', rd', evs) \<Rightarrow>
                    \<lparr> tasks = (tasks sv)[i := t'], store_state = rd', trace = trace sv @ evs \<rparr>)
          else sv)"

definition run_schedule :: "'plan world \<Rightarrow> (nat \<Rightarrow> real) \<Rightarrow> server \<Rightarrow> move list \<Rightarrow> server" where
  "run_schedule w randoms sv ms = foldl (server_step w randoms) sv ms"

definition is_backend_call :: "event \<Rightarrow> bool" where
  "is_backend_call e = (case e of LLMCall _ _ \<Rightarrow> True | _ \<Rightarrow> False)"

definition backend_calls :: "event list \<Rightarrow> nat" where
  "backend_calls evs = length (filter is_backend_call evs)"

definition is_lock_command :: "event \<Rightarrow> bool" where
  "is_lock_command e =
     (case e of RedisSetNX _ _ \<Rightarrow> True | RedisExpire _ _ \<Rightarrow> True | RedisDel _ \<Rightarrow> True | _ \<Rightarrow> False)"

text \<open>A task that is past its call of the service.\<close>

definition past_compute :: "task \<Rightarrow> bool" where
  "past_compute t =
     (case t of Computed _ _ \<Rightarrow> True | Replied _ \<Rightarrow> True | Hung \<Rightarrow> True | _ \<Rightarrow> False)"

definition lock_commands :: "event list \<Rightarrow> event list" where
  "lock_commands evs = filter is_lock_command evs"

section \<open>routes/health.ts\<close>

datatype health_status = Healthy | Degraded | Unhealthy






section \<open>An example installation\<close>

text \<open>
  Concrete collaborators on which the theorems below are exercised. \<open>sample_JSON_parse\<close>
  agrees with \<open>JSON.parse\<close> on the three texts it accepts and on the texts of the examples
  that are not JSON.
\<close>

definition sample_JSON_parse :: "string \<Rightarrow> json option" where
  "sample_JSON_parse s =
     (if s = ''[]'' then Some (JArray [])
      else if s = ''{}'' then Some (JObject [])
      else if s = ''null'' then Some JNull
      else None)"

definition sample_request :: LLMRequest where
  "sample_request =
     \<lparr> sql = ''SELECT name FROM users WHERE id = 1'',
       sanitizedSql = Some ''SELECT name FROM users WHERE id = <num_0>'',
       dialect = ''postgres'', schema = None, explainPlan = None, privacyMode = True \<rparr>"

text \<open>The plans of the example: one for each parser.\<close>

datatype sample_plan = PostgresJsonPlan | PostgresTextPlan | MysqlPlan | SqlitePlan

definition sample_engine :: "sample_plan engine" where
  "sample_engine =
     \<lparr> JSON_parse = sample_JSON_parse,
       JSON_stringify = (\<lambda>plan. ''{}''),
       fingerprint_sql =
         (\<lambda>s. \<lparr> hash = ''h1'', pattern = ''p1'', tables = [''users''], joinCount = 0,
                 whereClauseComplexity = 1 \<rparr>),
       sanitizeSQL =
         (\<lambda>s enabled. if enabled then ''SELECT name FROM users WHERE id = <num_0>'' else s),
       analyzeExplainPlan =
         (\<lambda>plan.
            [\<lparr> rec_type = ''btree'', rec_table = ''users'', rec_columns = [''id'', ''name''],
                rec_reason = ''sequential scan on users'' \<rparr>,
             \<lparr> rec_type = ''hash'', rec_table = ''orders'', rec_columns = [''user_id''],
                rec_reason = ''join without index'' \<rparr>]),
       parsePostgresExplainJson = (\<lambda>xs. Inr PostgresJsonPlan),
       parsePostgresExplainText =
         (\<lambda>s. if s = ''Seq Scan on users'' then Inr PostgresTextPlan
               else Inl (Error ''no plan found'')),
       parseMysqlExplainJson = (\<lambda>v. Inr MysqlPlan),
       parseSqliteExplainQueryPlan = (\<lambda>s. Inr SqlitePlan) \<rparr>"

definition unreachable_redis :: redis where
  "unreachable_redis = \<lparr> reachable = False, clock = 0, entries = (\<lambda>k. None) \<rparr>"

definition empty_redis :: redis where
  "empty_redis = \<lparr> reachable = True, clock = 0, entries = (\<lambda>k. None) \<rparr>"

text \<open>
  A request, and the result the stand-in gives it when \<open>Math.random()\<close> returns 0, as the
  typed object, as the value at run time, and as the JSON text of that value. In the
  example world the stand-in is selected, the database accepts every row, and
  \<open>JSON.stringify\<close> and \<open>JSON.parse\<close> are given on the values and texts the examples cache.
\<close>

definition sample_explain_request :: ExplainRequest where
  "sample_explain_request =
     \<lparr> rq_sql = ''SELECT name FROM users WHERE id = 1'', rq_dialect = ''postgres'',
       rq_schema = None, rq_explainPlan = None, rq_privacyMode = True, rq_cache = True \<rparr>"

definition sample_result :: ExplanationResult where
  "sample_result = LocalStubProvider_explainSQL 0 sample_request"

definition sample_value :: json where
  "sample_value = json_of_ExplanationResult sample_result"

definition sample_text :: string where
  \<open>sample_text = ''{"summary":"Execute a SELECT query with filtering","walkthrough":["Parse SELECT columns","Access table","Apply WHERE filters","Return results"],"planAnalysis":[{"nodeId":"node_0","operation":"SeqScan","estimatedRows":1000,"actualRows":null,"cost":{"startup":0,"total":100},"hotnessScore":75,"explanation":"Basic table scan"}],"optimizations":[{"title":"Add index on filtered column","severity":"medium","reason":"WHERE clause would benefit from index","change":"CREATE INDEX idx_filtered ON table(column)","estimatedImpact":"2-5x faster filtering"}],"antipatterns":[],"rewrittenSQL":"SELECT name FROM users WHERE id = 1","confidence":"low","fingerprint":{"hash":"stub_hash_1234567890","pattern":"STUB_PATTERN","tables":["stub_table"],"joinCount":0,"whereClauseComplexity":1},"executionTimeMs":0}''\<close>

definition sample_stringify :: "json \<Rightarrow> string" where
  "sample_stringify v =
     (if v = sample_value then sample_text
      else if v = JNumber 0 then ''0''
      else if v = JArray [] then ''[]''
      else if v = JNull then ''null''
      else ''{}'')"

definition caching_engine :: "sample_plan engine" where
  "caching_engine =
     sample_engine
       \<lparr> JSON_parse :=
           (\<lambda>s. if s = sample_text then Some sample_value
                else if s = ''0'' then Some (JNumber 0)
                else sample_JSON_parse s) \<rparr>"

definition sample_world :: "sample_plan world" where
  "sample_world =
     \<lparr> eng = caching_engine,
       environment = \<lparr> LLM_PROVIDER = Some ''stub'', OPENAI_API_KEY = None,
                       NODE_ENV = Some ''production'' \<rparr>,
       completions = (\<lambda>key prompt. Throws (Error ''network unreachable'')),
       prisma_create = (\<lambda>row. Returns ()),
       stringify_value = sample_stringify \<rparr>"

text \<open>Two variants differ in the database alone: in one every write is rejected, in the
  other no write ever settles.\<close>

definition failing_database_world :: "sample_plan world" where
  "failing_database_world
     = sample_world \<lparr> prisma_create := (\<lambda>row. Throws (Error ''connection lost'')) \<rparr>"

definition stalled_database_world :: "sample_plan world" where
  "stalled_database_world = sample_world \<lparr> prisma_create := (\<lambda>row. NeverSettles) \<rparr>"

text \<open>
  Worlds in which the remote variant is selected: one whose endpoint cannot be reached,
  and one whose endpoint answers with a given text.
\<close>

definition offline_backend_world :: "sample_plan world" where
  "offline_backend_world =
     sample_world \<lparr> environment := \<lparr> LLM_PROVIDER = None, OPENAI_API_KEY = Some ''sk-1'',
                                      NODE_ENV = Some ''production'' \<rparr> \<rparr>"

definition remote_world :: "string \<Rightarrow> sample_plan world" where
  "remote_world reply =
     offline_backend_world \<lparr> completions := (\<lambda>key prompt. Returns (Some reply)) \<rparr>"

text \<open>A Redis that holds the example result under the request's key.\<close>

definition warm_redis :: redis where
  "warm_redis =
     \<lparr> reachable = True, clock = 100,
       entries = (\<lambda>k. if k = ''explain:h1'' then Some (sample_text, Some 3700) else None) \<rparr>"

text \<open>Three copies of the request, arrived together at an empty cache.\<close>

definition three_arrivals :: server where
  "three_arrivals =
     \<lparr> tasks = [Arrived sample_explain_request, Arrived sample_explain_request,
                Arrived sample_explain_request],
       store_state = empty_redis, trace = [] \<rparr>"

section \<open>Properties\<close>

subsection \<open>The provider factory\<close>

text \<open>
  C6 says that the factory yields the stand-in whenever no remote credential is configured
  or the environment is a test context. The factory decides by the provider name first
  (the argument, else \<open>LLM_PROVIDER\<close>, else \<open>openai\<close>): under the name \<open>openai\<close> it builds
  the remote variant, whose constructor throws without a key, whatever \<open>NODE_ENV\<close> is.
\<close>

theorem createLLMProvider_counterexample:
  "createLLMProvider
     \<lparr> LLM_PROVIDER = None, OPENAI_API_KEY = None, NODE_ENV = Some ''production'' \<rparr> None
     = Inl (Error ''OPENAI_API_KEY environment variable not set'')
   \<and> createLLMProvider
     \<lparr> LLM_PROVIDER = None, OPENAI_API_KEY = None, NODE_ENV = Some ''test'' \<rparr> None
     = Inl (Error ''OPENAI_API_KEY environment variable not set'')
   \<and> createLLMProvider
     \<lparr> LLM_PROVIDER = None, OPENAI_API_KEY = Some ''sk-1'', NODE_ENV = Some ''test'' \<rparr> None
     = Inr (OpenAIProvider ''sk-1'')"
  by (simp add: createLLMProvider_def new_OpenAIProvider_def js_or_def truthy_def)

text \<open>
  C6, amended: with \<open>name\<close> the provider name in force, the factory yields the stand-in when
  \<open>name\<close> is \<open>stub\<close>, and when \<open>name\<close> is neither \<open>openai\<close> nor \<open>stub\<close> and \<open>NODE_ENV\<close> is
  \<open>test\<close>; an unknown name outside a test context is rejected; and under the name \<open>openai\<close>
  with no key, outside a test context, construction fails with the missing-key error
  instead of falling back to the stand-in.
\<close>

theorem createLLMProvider_selection:
  assumes "js_or (js_or providerName (LLM_PROVIDER e)) (Some ''openai'') = Some name"
  shows "(name = ''stub'' \<longrightarrow> createLLMProvider e providerName = Inr LocalStubProvider)
       \<and> (name \<noteq> ''openai'' \<and> name \<noteq> ''stub'' \<and> NODE_ENV e = Some ''test''
            \<longrightarrow> createLLMProvider e providerName = Inr LocalStubProvider)
       \<and> (name \<noteq> ''openai'' \<and> name \<noteq> ''stub'' \<and> NODE_ENV e \<noteq> Some ''test''
            \<longrightarrow> createLLMProvider e providerName
                  = Inl (Error (''Unknown LLM provider: '' @ name)))
       \<and> (name = ''openai'' \<and> \<not> truthy (OPENAI_API_KEY e) \<and> NODE_ENV e \<noteq> Some ''test''
            \<longrightarrow> createLLMProvider e providerName
                  = Inl (Error ''OPENAI_API_KEY environment variable not set''))"
  using assms
  by (auto simp: createLLMProvider_def new_OpenAIProvider_def js_or_def truthy_def
      split: option.splits)

theorem createLLMProvider_selection_witness:
  "createLLMProvider
     \<lparr> LLM_PROVIDER = Some ''stub'', OPENAI_API_KEY = None, NODE_ENV = Some ''production'' \<rparr> None
     = Inr LocalStubProvider
   \<and> createLLMProvider
     \<lparr> LLM_PROVIDER = Some ''claude'', OPENAI_API_KEY = None, NODE_ENV = Some ''test'' \<rparr> None
     = Inr LocalStubProvider
   \<and> createLLMProvider
     \<lparr> LLM_PROVIDER = Some ''claude'', OPENAI_API_KEY = None, NODE_ENV = None \<rparr> None
     = Inl (Error ''Unknown LLM provider: claude'')
   \<and> createLLMProvider
     \<lparr> LLM_PROVIDER = None, OPENAI_API_KEY = None, NODE_ENV = Some ''production'' \<rparr> None
     = Inl (Error ''OPENAI_API_KEY environment variable not set'')"
  using
    createLLMProvider_selection
      [where providerName = None and name = "''stub''"
         and e = "\<lparr> LLM_PROVIDER = Some ''stub'', OPENAI_API_KEY = None,
                      NODE_ENV = Some ''production'' \<rparr>"]
    createLLMProvider_selection
      [where providerName = None and name = "''claude''"
         and e = "\<lparr> LLM_PROVIDER = Some ''claude'', OPENAI_API_KEY = None,
                      NODE_ENV = Some ''test'' \<rparr>"]
    createLLMProvider_selection
      [where providerName = None and name = "''claude''"
         and e = "\<lparr> LLM_PROVIDER = Some ''claude'', OPENAI_API_KEY = None, NODE_ENV = None \<rparr>"]
    createLLMProvider_selection
      [where providerName = None and name = "''openai''"
         and e = "\<lparr> LLM_PROVIDER = None, OPENAI_API_KEY = None,
                      NODE_ENV = Some ''production'' \<rparr>"]
  by (simp add: js_or_def truthy_def)

subsection \<open>The remote variant's reply\<close>

text \<open>
  C4 says that a reply is accepted only when it is valid JSON of the shape of an
  explanation. The reply \<open>{}\<close> is valid JSON, has none of the fields, and is returned.
\<close>

theorem OpenAIProvider_explainSQL_counterexample:
  "OpenAIProvider_explainSQL sample_JSON_parse (\<lambda>prompt. Returns (Some ''{}'')) sample_request
     = Returns (JObject [])
   \<and> \<not> matches_ExplanationResult (JObject [])"
  by (simp add: OpenAIProvider_explainSQL_def sample_JSON_parse_def reply_text_def js_or_def
        truthy_def matches_ExplanationResult_def field_def is_string_def)

text \<open>
  C4, amended: once the endpoint has answered, the remote variant fails with
  \<open>Invalid LLM response format\<close> for every reply that is not valid JSON and for the reply
  \<open>null\<close>, and returns every other reply as parsed, whole and unchecked against the shape.
\<close>

theorem OpenAIProvider_explainSQL_accepts:
  assumes "chat (buildPrompt request) = Returns content"
  shows "(parse (reply_text content) = None \<longrightarrow>
            OpenAIProvider_explainSQL parse chat request
              = Throws (Error ''Invalid LLM response format''))
       \<and> (parse (reply_text content) = Some JNull \<longrightarrow>
            OpenAIProvider_explainSQL parse chat request
              = Throws (Error ''Invalid LLM response format''))
       \<and> (parse (reply_text content) = Some v \<and> v \<noteq> JNull \<longrightarrow>
            OpenAIProvider_explainSQL parse chat request = Returns v)"
  using assms
  by (auto simp: OpenAIProvider_explainSQL_def Let_def)

theorem OpenAIProvider_explainSQL_accepts_witness:
  "OpenAIProvider_explainSQL sample_JSON_parse (\<lambda>prompt. Returns (Some ''[]'')) sample_request
     = Returns (JArray [])
   \<and> OpenAIProvider_explainSQL sample_JSON_parse (\<lambda>prompt. Returns (Some ''oops'')) sample_request
     = Throws (Error ''Invalid LLM response format'')
   \<and> OpenAIProvider_explainSQL sample_JSON_parse (\<lambda>prompt. Returns (Some ''null'')) sample_request
     = Throws (Error ''Invalid LLM response format'')"
  using
    OpenAIProvider_explainSQL_accepts
      [where chat = "\<lambda>prompt. Returns (Some ''[]'')" and request = sample_request
         and content = "Some ''[]''" and parse = sample_JSON_parse and v = "JArray []"]
    OpenAIProvider_explainSQL_accepts
      [where chat = "\<lambda>prompt. Returns (Some ''oops'')" and request = sample_request
         and content = "Some ''oops''" and parse = sample_JSON_parse]
    OpenAIProvider_explainSQL_accepts
      [where chat = "\<lambda>prompt. Returns (Some ''null'')" and request = sample_request
         and content = "Some ''null''" and parse = sample_JSON_parse]
  by (simp add: reply_text_def js_or_def truthy_def sample_JSON_parse_def)

subsection \<open>The stand-in\<close>

text \<open>
  C5 says that two calls of the stand-in on the same input yield identical results. The
  field \<open>executionTimeMs\<close> is \<open>Math.random() * 100\<close>: with the draws 0 and 1/2 the two
  results of one request differ.
\<close>

theorem LocalStubProvider_explainSQL_not_deterministic:
  "LocalStubProvider_explainSQL 0 sample_request
     \<noteq> LocalStubProvider_explainSQL (1 / 2) sample_request
   \<and> executionTimeMs (LocalStubProvider_explainSQL 0 sample_request) = 0
   \<and> executionTimeMs (LocalStubProvider_explainSQL (1 / 2) sample_request) = 50"
  by (simp add: LocalStubProvider_explainSQL_def Let_def)

text \<open>Every other field is a function of the SQL text alone, and the confidence is low.\<close>

lemma LocalStubProvider_explainSQL_other_fields:
  "LocalStubProvider_explainSQL r1 request
     = (LocalStubProvider_explainSQL r2 request) \<lparr> executionTimeMs := r1 * 100 \<rparr>
   \<and> confidence (LocalStubProvider_explainSQL r1 request) = Low"
  by (simp add: LocalStubProvider_explainSQL_def Let_def)

lemma LocalStubProvider_explainSQL_sql_only:
  "sql request = sql request' \<Longrightarrow>
     LocalStubProvider_explainSQL r request = LocalStubProvider_explainSQL r request'"
  by (simp add: LocalStubProvider_explainSQL_def)

subsection \<open>The dispatch on the dialect\<close>

text \<open>
  C7 says that for the dialect \<open>postgres\<close> no plan text is rejected as an unsupported
  dialect. A text that is JSON but not an array leaves the postgres branch without a
  result and reaches the final \<open>throw\<close>.
\<close>

theorem parseExplainPlan_postgres_object:
  "parseExplainPlan sample_engine ''{}'' ''postgres''
     = Inl (Error ''Unsupported dialect: postgres'')"
  by (simp add: parseExplainPlan_def sample_engine_def sample_JSON_parse_def)

lemma parseExplainPlan_postgres_not_array:
  assumes "JSON_parse en out = Some v" and "\<forall>xs. v \<noteq> JArray xs"
  shows "parseExplainPlan en out ''postgres'' = Inl (Error ''Unsupported dialect: postgres'')"
  using assms by (cases v) (simp_all add: parseExplainPlan_def)

lemma parseExplainPlan_other_dialect:
  assumes "d \<noteq> ''postgres''" and "d \<noteq> ''mysql''" and "d \<noteq> ''sqlite''"
  shows "parseExplainPlan en out d = Inl (Error (''Unsupported dialect: '' @ d))"
  using assms by (simp add: parseExplainPlan_def)

subsection \<open>The health route\<close>




subsection \<open>Facts about the service and the route\<close>

text \<open>Writing a property of an object: the other properties and the order of the keys stay.\<close>

lemma map_of_set_field:
  "map_of (set_field k v fs) k' = (if k' = k then Some v else map_of fs k')"
  by (induction fs) auto

lemma keys_set_field:
  "map fst (set_field k v fs) = (if k \<in> fst ` set fs then map fst fs else map fst fs @ [k])"
proof (induction fs)
  case Nil
  show ?case by simp
next
  case (Cons p fs)
  obtain k' v' where p: "p = (k', v')" by (cases p)
  show ?case
  proof (cases "k' = k")
    case True
    then show ?thesis by (simp add: p)
  next
    case False
    then have "k \<in> fst ` set (p # fs) \<longleftrightarrow> k \<in> fst ` set fs" by (auto simp: p)
    then show ?thesis using False Cons.IH by (simp add: p)
  qed
qed

lemma key_after_set_field: "k \<in> set (map fst (set_field k v fs))"
  unfolding keys_set_field by simp

lemma field_set_field:
  "field (JObject (set_field k v fs)) k' = (if k' = k then Some v else field (JObject fs) k')"
  by (simp add: field_def map_of_set_field)

lemma push_optimizations_array:
  assumes "map_of fs ''optimizations'' = Some (JArray own)"
  shows "push_optimizations (JObject fs) new
           = Inr (JObject (set_field ''optimizations'' (JArray (own @ new)) fs))"
  using assms by (simp add: push_optimizations_def)

lemma push_optimizations_absent:
  assumes "field explanation ''optimizations'' = None"
  shows "push_optimizations explanation new
           = Inl (Error ''Cannot read properties of undefined (reading 'push')'')"
  using assms by (cases explanation) (simp_all add: push_optimizations_def field_def)

lemma explainSQLService_backend_returns:
  assumes "createLLMProvider (environment w) None = Inr p"
    and "parse_supplied_plan (eng w) ep d = (plan, pevs)"
    and "explainSQL w random p (llm_request (eng w) osql ssql d sch ep plan) = Returns e0"
    and "merge_heuristics (eng w) plan e0 = Inr merged"
  shows "explainSQLService w random osql ssql d sch ep
           = (case prisma_create w (cache_row (eng w) osql d merged) of
                Returns u \<Rightarrow>
                  (Returns merged,
                   pevs @ [LLMCall p (llm_request (eng w) osql ssql d sch ep plan),
                           DbCreate (cache_row (eng w) osql d merged)])
              | Throws err \<Rightarrow>
                  (Returns merged,
                   pevs @ [LLMCall p (llm_request (eng w) osql ssql d sch ep plan),
                           DbCreate (cache_row (eng w) osql d merged),
                           Log Warn ''Failed to cache explanation in database''])
              | NeverSettles \<Rightarrow>
                  (NeverSettles,
                   pevs @ [LLMCall p (llm_request (eng w) osql ssql d sch ep plan),
                           DbCreate (cache_row (eng w) osql d merged)]))"
  using assms
  by (simp add: explainSQLService_def Let_def split: completion.splits)

lemma explainSQLService_merge_throws:
  assumes "createLLMProvider (environment w) None = Inr p"
    and "parse_supplied_plan (eng w) ep d = (plan, pevs)"
    and "explainSQL w random p (llm_request (eng w) osql ssql d sch ep plan) = Returns e0"
    and "merge_heuristics (eng w) plan e0 = Inl err"
  shows "explainSQLService w random osql ssql d sch ep
           = (Throws err, pevs @ [LLMCall p (llm_request (eng w) osql ssql d sch ep plan)])"
  using assms by (simp add: explainSQLService_def Let_def)



lemma parse_supplied_plan_ok:
  "text \<noteq> [] \<Longrightarrow> parseExplainPlan en text d = Inr plan \<Longrightarrow>
     parse_supplied_plan en (Some text) d = (Some plan, [])"
  by (simp add: parse_supplied_plan_def)




lemma backend_calls_append: "backend_calls (xs @ ys) = backend_calls xs + backend_calls ys"
  by (simp add: backend_calls_def)

lemma explainSQLService_backend_calls:
  "backend_calls (snd (explainSQLService w random osql ssql d sch ep)) \<le> 1"
  by (auto simp: explainSQLService_def parse_supplied_plan_def backend_calls_def
        is_backend_call_def Let_def
      split: sum.splits completion.splits option.splits)

lemma cacheGet_backend_calls: "backend_calls (snd (cacheGet parse rd key)) = 0"
  by (auto simp: cacheGet_def backend_calls_def is_backend_call_def
      split: sum.splits option.splits)

lemma cacheSet_backend_calls: "backend_calls (snd (cacheSet stringify rd key v ttl)) = 0"
  by (auto simp: cacheSet_def backend_calls_def is_backend_call_def Let_def
      split: sum.splits option.splits)

lemma lookup_backend_calls: "backend_calls (snd (lookup w rd req)) = 0"
  using cacheGet_backend_calls [of "JSON_parse (eng w)" rd "cacheKey w req"]
  by (auto simp: lookup_def backend_calls_append backend_calls_def is_backend_call_def
      split: prod.splits)

lemma compute_backend_calls: "backend_calls (snd (compute w random req)) \<le> 1"
  using explainSQLService_backend_calls
  by (simp add: compute_def Let_def backend_calls_def is_backend_call_def)

lemma store_backend_calls: "backend_calls (snd (store w rd req result)) = 0"
  using cacheSet_backend_calls
  by (simp add: store_def backend_calls_def)

lemma cacheGet_after_cacheSet:
  assumes "reachable rd" and "gap < 3600"
    and "stringify v \<noteq> []" and "parse (stringify v) = Some v"
  shows "cacheGet parse (elapse gap (fst (cacheSet stringify rd key v (Some 3600)))) key
           = (v, [RedisGet key])"
  using assms
  by (simp add: cacheGet_def cacheSet_def client_get_def client_setEx_def live_def elapse_def Let_def)

lemma cacheGet_after_expiry:
  assumes "reachable rd" and "3600 \<le> gap"
  shows "cacheGet parse (elapse gap (fst (cacheSet stringify rd key v (Some 3600)))) key
           = (JNull, [RedisGet key])"
  using assms
  by (simp add: cacheGet_def cacheSet_def client_get_def client_setEx_def live_def elapse_def Let_def)

lemma cacheGet_unreachable:
  assumes "\<not> reachable rd"
  shows "cacheGet parse rd key = (JNull, [RedisGet key, Log Err ''Cache get failed''])"
  using assms by (simp add: cacheGet_def client_get_def)

lemma cacheSet_unreachable:
  assumes "\<not> reachable rd"
  shows "fst (cacheSet stringify rd key v ttl) = rd"
  using assms by (simp add: cacheSet_def client_setEx_def Let_def)

lemma route_hit:
  assumes "rq_cache req" and "cacheGet (JSON_parse (eng w)) rd (cacheKey w req) = (stored, gevs)"
    and "truthy_json stored"
  shows "explain_route w delay random (Inr req) rd
           = (Some (send_result w req stored True), rd,
              gevs @ [CacheHit ''explain'', RequestMetrics 200])"
  using assms by (simp add: explain_route_def lookup_def)

lemma route_miss:
  assumes "fst (lookup w rd req) = None" and "compute w random req = (Returns result, cevs)"
  shows "explain_route w delay random (Inr req) rd
           = (Some (send_result w req result False),
              fst (store w (elapse delay rd) req result),
              snd (lookup w rd req) @ cevs @ snd (store w (elapse delay rd) req result)
                @ [RequestMetrics 200])"
  using assms by (cases "lookup w rd req") (simp add: explain_route_def Let_def)

lemma route_fails:
  assumes "fst (lookup w rd req) = None" and "compute w random req = (Throws (Error message), cevs)"
  shows "explain_route w delay random (Inr req) rd
           = (Some (Reply500 message), rd,
              snd (lookup w rd req) @ cevs @ [RequestMetrics 500, Log Err ''Explain endpoint error''])"
  using assms by (cases "lookup w rd req") (simp add: explain_route_def Let_def)

text \<open>The example world, evaluated.\<close>

lemma sample_provider: "createLLMProvider (environment sample_world) None = Inr LocalStubProvider"
  by (simp add: sample_world_def createLLMProvider_def js_or_def truthy_def)

lemma sample_stub:
  "sql request = ''SELECT name FROM users WHERE id = 1'' \<Longrightarrow>
     LocalStubProvider_explainSQL 0 request = sample_result"
  unfolding sample_result_def
  by (rule LocalStubProvider_explainSQL_sql_only) (simp add: sample_request_def)

lemma sample_value_fields:
  "sample_value =
     JObject [(''summary'', JString ''Execute a SELECT query with filtering''),
              (''walkthrough'',
               JArray [JString ''Parse SELECT columns'', JString ''Access table'',
                       JString ''Apply WHERE filters'', JString ''Return results'']),
              (''planAnalysis'',
               JArray [JObject [(''nodeId'', JString ''node_0''),
                                (''operation'', JString ''SeqScan''),
                                (''estimatedRows'', JNumber 1000),
                                (''actualRows'', JNull),
                                (''cost'', JObject [(''startup'', JNumber 0), (''total'', JNumber 100)]),
                                (''hotnessScore'', JNumber 75),
                                (''explanation'', JString ''Basic table scan'')]]),
              (''optimizations'',
               JArray [JObject [(''title'', JString ''Add index on filtered column''),
                                (''severity'', JString ''medium''),
                                (''reason'', JString ''WHERE clause would benefit from index''),
                                (''change'', JString ''CREATE INDEX idx_filtered ON table(column)''),
                                (''estimatedImpact'', JString ''2-5x faster filtering'')]]),
              (''antipatterns'', JArray []),
              (''rewrittenSQL'', JString ''SELECT name FROM users WHERE id = 1''),
              (''confidence'', JString ''low''),
              (''fingerprint'',
               JObject [(''hash'', JString ''stub_hash_1234567890''),
                        (''pattern'', JString ''STUB_PATTERN''),
                        (''tables'', JArray [JString ''stub_table'']),
                        (''joinCount'', JNumber 0),
                        (''whereClauseComplexity'', JNumber 1)]),
              (''executionTimeMs'', JNumber 0)]"
  by (simp add: sample_value_def sample_result_def sample_request_def
        LocalStubProvider_explainSQL_def toUpperCase_def toUpperCase_char_def
        json_of_ExplanationResult_def json_of_PlanAnalysisNode_def json_of_operation_def
        json_of_number_def json_of_Cost_def json_of_OptimizationSuggestion_def
        json_of_level_def json_of_QueryFingerprint_def)

lemma sample_optimizations:
  "field sample_value ''optimizations''
     = Some (JArray [JObject [(''title'', JString ''Add index on filtered column''),
                              (''severity'', JString ''medium''),
                              (''reason'', JString ''WHERE clause would benefit from index''),
                              (''change'', JString ''CREATE INDEX idx_filtered ON table(column)''),
                              (''estimatedImpact'', JString ''2-5x faster filtering'')]])"
  by (simp add: sample_value_fields field_def)

lemma sample_value_truthy: "truthy_json sample_value"
  by (simp add: sample_value_fields truthy_json_def)

lemma sample_backend:
  "sql request = ''SELECT name FROM users WHERE id = 1'' \<Longrightarrow>
     explainSQL w 0 LocalStubProvider request = Returns sample_value"
  by (simp add: explainSQL_def sample_stub sample_value_def)

lemma sample_parse_text: "JSON_parse caching_engine sample_text = Some sample_value"
  by (simp add: caching_engine_def)

lemma sample_parse_others:
  "JSON_parse caching_engine ''[]'' = Some (JArray [])"
  "JSON_parse caching_engine ''{}'' = Some (JObject [])"
  "JSON_parse caching_engine ''0'' = Some (JNumber 0)"
  "JSON_parse caching_engine ''not a plan'' = None"
  by (simp_all add: caching_engine_def sample_text_def sample_JSON_parse_def)

lemma sample_stringify_value: "sample_stringify sample_value = sample_text"
  by (simp add: sample_stringify_def)

lemma sample_text_not_empty: "sample_text \<noteq> []"
  by (simp add: sample_text_def)

lemma caching_engine_rest:
  "fingerprint_sql caching_engine = fingerprint_sql sample_engine"
  "sanitizeSQL caching_engine = sanitizeSQL sample_engine"
  "analyzeExplainPlan caching_engine = analyzeExplainPlan sample_engine"
  "parsePostgresExplainJson caching_engine = parsePostgresExplainJson sample_engine"
  "parsePostgresExplainText caching_engine = parsePostgresExplainText sample_engine"
  by (simp_all add: caching_engine_def)

lemma sample_sanitize:
  "sanitizeSQL caching_engine ''SELECT name FROM users WHERE id = 1'' True
     = ''SELECT name FROM users WHERE id = <num_0>''"
  by (simp add: caching_engine_rest sample_engine_def)

lemma sample_plan_parses_in: "parseExplainPlan caching_engine ''[]'' ''postgres'' = Inr PostgresJsonPlan"
  by (simp add: parseExplainPlan_def sample_parse_others caching_engine_rest sample_engine_def)


lemma sample_recs_in:
  "analyzeExplainPlan caching_engine plan
     = [\<lparr> rec_type = ''btree'', rec_table = ''users'', rec_columns = [''id'', ''name''],
           rec_reason = ''sequential scan on users'' \<rparr>,
        \<lparr> rec_type = ''hash'', rec_table = ''orders'', rec_columns = [''user_id''],
           rec_reason = ''join without index'' \<rparr>]"
  by (simp add: caching_engine_rest sample_engine_def)

lemma sample_eng:
  "eng sample_world = caching_engine"
  "eng failing_database_world = caching_engine"
  "eng stalled_database_world = caching_engine"
  "eng offline_backend_world = caching_engine"
  "eng (remote_world reply) = caching_engine"
  by (simp_all add: sample_world_def failing_database_world_def stalled_database_world_def
        offline_backend_world_def remote_world_def)

lemma sample_service:
  "explainSQLService sample_world 0 ''SELECT name FROM users WHERE id = 1''
       ''SELECT name FROM users WHERE id = <num_0>'' ''postgres'' None None
     = (Returns sample_value,
        [LLMCall LocalStubProvider
           (llm_request caching_engine ''SELECT name FROM users WHERE id = 1''
              ''SELECT name FROM users WHERE id = <num_0>'' ''postgres'' None None None),
         DbCreate (cache_row caching_engine ''SELECT name FROM users WHERE id = 1'' ''postgres''
                     sample_value)])"
proof -
  have p: "parse_supplied_plan (eng sample_world) None ''postgres'' = (None, [])"
    by (simp add: parse_supplied_plan_def)
  have b: "explainSQL sample_world 0 LocalStubProvider
             (llm_request (eng sample_world) ''SELECT name FROM users WHERE id = 1''
                ''SELECT name FROM users WHERE id = <num_0>'' ''postgres'' None None None)
             = Returns sample_value"
    by (rule sample_backend) (simp add: llm_request_def)
  have m: "merge_heuristics (eng sample_world) None sample_value = Inr sample_value"
    by (simp add: merge_heuristics_def)
  have w: "prisma_create sample_world = (\<lambda>row. Returns ())" by (simp add: sample_world_def)
  show ?thesis
    unfolding explainSQLService_backend_returns [OF sample_provider p b m]
    by (simp add: w sample_eng)
qed

lemma sample_compute:
  "compute sample_world 0 sample_explain_request
     = (Returns sample_value,
        [CacheMiss ''explain'',
         LLMCall LocalStubProvider
           (llm_request caching_engine ''SELECT name FROM users WHERE id = 1''
              ''SELECT name FROM users WHERE id = <num_0>'' ''postgres'' None None None),
         DbCreate (cache_row caching_engine ''SELECT name FROM users WHERE id = 1'' ''postgres''
                     sample_value)])"
  by (simp add: compute_def sample_explain_request_def sample_eng sample_sanitize sample_service)

lemma sample_cacheKey: "cacheKey sample_world sample_explain_request = ''explain:h1''"
  by (simp add: cacheKey_def sample_eng caching_engine_rest sample_engine_def)

lemma sample_lookup_empty:
  "lookup sample_world empty_redis sample_explain_request
     = (None, [RedisGet (cacheKey sample_world sample_explain_request)])"
  by (simp add: lookup_def cacheGet_def client_get_def live_def sample_explain_request_def
        empty_redis_def truthy_json_def)

lemma reachable_empty_redis: "reachable empty_redis"
  by (simp add: empty_redis_def)

lemma warm_hit:
  "cacheGet (JSON_parse (eng sample_world)) warm_redis (cacheKey sample_world sample_explain_request)
     = (sample_value, [RedisGet ''explain:h1''])"
  unfolding sample_cacheKey sample_eng
  by (simp add: cacheGet_def client_get_def live_def warm_redis_def sample_parse_text
        sample_text_not_empty)

lemma offline_provider:
  "createLLMProvider (environment offline_backend_world) None = Inr (OpenAIProvider ''sk-1'')"
  by (simp add: offline_backend_world_def createLLMProvider_def new_OpenAIProvider_def
        js_or_def truthy_def)

lemma remote_provider:
  "createLLMProvider (environment (remote_world reply)) None = Inr (OpenAIProvider ''sk-1'')"
  using offline_provider by (simp add: remote_world_def)


lemma remote_backend:
  "explainSQL (remote_world reply) random (OpenAIProvider ''sk-1'') request
     = (case JSON_parse caching_engine (reply_text (Some reply)) of
          None \<Rightarrow> Throws (Error ''Invalid LLM response format'')
        | Some result \<Rightarrow>
            if result = JNull then Throws (Error ''Invalid LLM response format'')
            else Returns result)"
  by (simp add: explainSQL_def OpenAIProvider_explainSQL_def sample_eng)
     (simp add: remote_world_def)


lemma sample_store:
  "reachable rd \<Longrightarrow> store sample_world rd sample_explain_request sample_value
     = (rd \<lparr> entries := (entries rd)(cacheKey sample_world sample_explain_request \<mapsto>
               (stringify_value sample_world sample_value, Some (clock rd + 3600))) \<rparr>,
        [RedisSetEx (cacheKey sample_world sample_explain_request) 3600
           (stringify_value sample_world sample_value)])"
  by (simp add: store_def cacheSet_def client_setEx_def sample_explain_request_def)

subsection \<open>The heuristic merge\<close>

text \<open>
  C3: when the supplied plan parses and the value the backend returned is an object whose
  \<open>optimizations\<close> property holds an array, the service returns that object with one
  suggestion per recommendation of the analyzer appended to the array: the backend's own
  suggestions come first, unchanged and in their order, no other property changes, and
  the suggestion for the i-th recommendation has the title
  \<open>Add {type} index on {table}({columns joined by comma})\<close>, the severity \<open>high\<close> exactly
  when the reason contains \<open>missing\<close> or \<open>sequential\<close> and \<open>medium\<close> otherwise, the
  recommendation's reason, the change \<open>CREATE INDEX idx_{table}_{firstColumn} ON ...\<close>
  (with \<open>undefined\<close> for the first column of an empty list) and the impact
  \<open>2-10x faster queries\<close>. The run is one in which the provider is built, the backend
  answers and the database write settles.
\<close>

theorem heuristics_appended:
  assumes provider: "createLLMProvider (environment w) None = Inr p"
    and supplied: "text \<noteq> []"
    and parsed: "parseExplainPlan (eng w) text d = Inr plan"
    and backend: "explainSQL w random p (llm_request (eng w) osql ssql d sch (Some text) (Some plan))
                    = Returns (JObject fs)"
    and well_formed: "field (JObject fs) ''optimizations'' = Some (JArray own)"
    and settles: "\<forall>row. prisma_create w row \<noteq> NeverSettles"
    and recs: "recs = analyzeExplainPlan (eng w) plan"
  shows "\<exists>fs' all.
           fst (explainSQLService w random osql ssql d sch (Some text)) = Returns (JObject fs')
         \<and> map fst fs' = map fst fs
         \<and> (\<forall>k. k \<noteq> ''optimizations'' \<longrightarrow> field (JObject fs') k = field (JObject fs) k)
         \<and> field (JObject fs') ''optimizations'' = Some (JArray all)
         \<and> length all = length own + length recs
         \<and> take (length own) all = own
         \<and> (\<forall>i < length recs.
               all ! (length own + i)
                 = JObject
                     [(''title'',
                       JString (''Add '' @ rec_type (recs ! i) @ '' index on ''
                                  @ rec_table (recs ! i) @ ''(''
                                  @ join '','' (rec_columns (recs ! i)) @ '')'')),
                      (''severity'',
                       JString (if str_includes (rec_reason (recs ! i)) ''missing''
                                   \<or> str_includes (rec_reason (recs ! i)) ''sequential''
                                then ''high'' else ''medium'')),
                      (''reason'', JString (rec_reason (recs ! i))),
                      (''change'',
                       JString (''CREATE INDEX idx_'' @ rec_table (recs ! i) @ ''_''
                                  @ (case rec_columns (recs ! i) of
                                       [] \<Rightarrow> ''undefined'' | c # cs \<Rightarrow> c)
                                  @ '' ON '' @ rec_table (recs ! i) @ ''(''
                                  @ join '','' (rec_columns (recs ! i)) @ '')'')),
                      (''estimatedImpact'', JString ''2-10x faster queries'')])"
proof -
  let ?new = "map (\<lambda>r. json_of_OptimizationSuggestion (heuristic_suggestion r)) recs"
  let ?all = "own @ ?new"
  let ?fs' = "set_field ''optimizations'' (JArray ?all) fs"
  have own: "map_of fs ''optimizations'' = Some (JArray own)"
    using well_formed by (simp add: field_def)
  have m: "merge_heuristics (eng w) (Some plan) (JObject fs) = Inr (JObject ?fs')"
    by (simp add: merge_heuristics_def recs push_optimizations_array [OF own])
  have "prisma_create w (cache_row (eng w) osql d (JObject ?fs')) \<noteq> NeverSettles"
    using settles by blast
  then have run: "fst (explainSQLService w random osql ssql d sch (Some text))
                    = Returns (JObject ?fs')"
    unfolding explainSQLService_backend_returns
                [OF provider parse_supplied_plan_ok [OF supplied parsed] backend m]
    by (simp split: completion.splits)
  have "(''optimizations'', JArray own) \<in> set fs"
    using own by (rule map_of_SomeD)
  then have "''optimizations'' \<in> fst ` set fs" by force
  then have keys: "map fst ?fs' = map fst fs"
    by (simp add: keys_set_field)
  have others: "\<forall>k. k \<noteq> ''optimizations'' \<longrightarrow> field (JObject ?fs') k = field (JObject fs) k"
    by (simp add: field_set_field)
  have array: "field (JObject ?fs') ''optimizations'' = Some (JArray ?all)"
    by (simp add: field_set_field)
  have len: "length ?all = length own + length recs" by simp
  have first: "take (length own) ?all = own" by simp
  have each: "\<forall>i < length recs.
               ?all ! (length own + i)
                 = JObject
                     [(''title'',
                       JString (''Add '' @ rec_type (recs ! i) @ '' index on ''
                                  @ rec_table (recs ! i) @ ''(''
                                  @ join '','' (rec_columns (recs ! i)) @ '')'')),
                      (''severity'',
                       JString (if str_includes (rec_reason (recs ! i)) ''missing''
                                   \<or> str_includes (rec_reason (recs ! i)) ''sequential''
                                then ''high'' else ''medium'')),
                      (''reason'', JString (rec_reason (recs ! i))),
                      (''change'',
                       JString (''CREATE INDEX idx_'' @ rec_table (recs ! i) @ ''_''
                                  @ (case rec_columns (recs ! i) of
                                       [] \<Rightarrow> ''undefined'' | c # cs \<Rightarrow> c)
                                  @ '' ON '' @ rec_table (recs ! i) @ ''(''
                                  @ join '','' (rec_columns (recs ! i)) @ '')'')),
                      (''estimatedImpact'', JString ''2-10x faster queries'')]"
    by (simp add: nth_append json_of_OptimizationSuggestion_def heuristic_suggestion_def
          json_of_level_def)
  show ?thesis
    using run keys others array len first each by blast
qed

theorem heuristics_appended_witness:
  "createLLMProvider (environment (remote_world sample_text)) None = Inr (OpenAIProvider ''sk-1'')
   \<and> parseExplainPlan (eng (remote_world sample_text)) ''[]'' ''postgres'' = Inr PostgresJsonPlan
   \<and> length (analyzeExplainPlan (eng (remote_world sample_text)) PostgresJsonPlan) = 2
   \<and> (\<exists>fs' all.
          fst (explainSQLService (remote_world sample_text) 0 ''SELECT name FROM users WHERE id = 1''
                 ''SELECT name FROM users WHERE id = <num_0>'' ''postgres'' None (Some ''[]''))
            = Returns (JObject fs')
        \<and> field (JObject fs') ''summary'' = Some (JString ''Execute a SELECT query with filtering'')
        \<and> field (JObject fs') ''optimizations'' = Some (JArray all)
        \<and> length all = 3
        \<and> all ! 0 = JObject [(''title'', JString ''Add index on filtered column''),
                              (''severity'', JString ''medium''),
                              (''reason'', JString ''WHERE clause would benefit from index''),
                              (''change'', JString ''CREATE INDEX idx_filtered ON table(column)''),
                              (''estimatedImpact'', JString ''2-5x faster filtering'')]
        \<and> all ! 1 = JObject [(''title'', JString ''Add btree index on users(id,name)''),
                              (''severity'', JString ''high''),
                              (''reason'', JString ''sequential scan on users''),
                              (''change'', JString ''CREATE INDEX idx_users_id ON users(id,name)''),
                              (''estimatedImpact'', JString ''2-10x faster queries'')]
        \<and> all ! 2 = JObject [(''title'', JString ''Add hash index on orders(user_id)''),
                              (''severity'', JString ''medium''),
                              (''reason'', JString ''join without index''),
                              (''change'', JString ''CREATE INDEX idx_orders_user_id ON orders(user_id)''),
                              (''estimatedImpact'', JString ''2-10x faster queries'')])"
proof -
  let ?w = "remote_world sample_text"
  let ?one = "JObject [(''title'', JString ''Add index on filtered column''),
                       (''severity'', JString ''medium''),
                       (''reason'', JString ''WHERE clause would benefit from index''),
                       (''change'', JString ''CREATE INDEX idx_filtered ON table(column)''),
                       (''estimatedImpact'', JString ''2-5x faster filtering'')]"
  let ?r1 = "\<lparr> rec_type = ''btree'', rec_table = ''users'', rec_columns = [''id'', ''name''],
               rec_reason = ''sequential scan on users'' \<rparr>"
  let ?r2 = "\<lparr> rec_type = ''hash'', rec_table = ''orders'', rec_columns = [''user_id''],
               rec_reason = ''join without index'' \<rparr>"
  obtain fs0 where sv: "sample_value = JObject fs0"
    using sample_value_fields by blast
  have t: "''[]'' \<noteq> ([] :: string)" by simp
  have parses: "parseExplainPlan (eng ?w) ''[]'' ''postgres'' = Inr PostgresJsonPlan"
    unfolding sample_eng by (rule sample_plan_parses_in)
  have b: "explainSQL ?w 0 (OpenAIProvider ''sk-1'')
             (llm_request (eng ?w) ''SELECT name FROM users WHERE id = 1''
                ''SELECT name FROM users WHERE id = <num_0>'' ''postgres'' None (Some ''[]'')
                (Some PostgresJsonPlan))
             = Returns (JObject fs0)"
    unfolding remote_backend sv [symmetric]
    using sample_value_truthy
    by (auto simp add: reply_text_def js_or_def truthy_def sample_text_not_empty sample_parse_text
          truthy_json_def)
  have wf: "field (JObject fs0) ''optimizations'' = Some (JArray [?one])"
    using sample_optimizations unfolding sv .
  have s: "\<forall>row. prisma_create ?w row \<noteq> NeverSettles"
    by (simp add: remote_world_def offline_backend_world_def sample_world_def)
  have recs: "[?r1, ?r2] = analyzeExplainPlan (eng ?w) PostgresJsonPlan"
    unfolding sample_eng by (simp add: sample_recs_in)
  have len: "length (analyzeExplainPlan (eng ?w) PostgresJsonPlan) = 2"
    unfolding recs [symmetric] by simp
  obtain fs' all where
    run: "fst (explainSQLService ?w 0 ''SELECT name FROM users WHERE id = 1''
                 ''SELECT name FROM users WHERE id = <num_0>'' ''postgres'' None (Some ''[]''))
            = Returns (JObject fs')"
    and others: "\<forall>k. k \<noteq> ''optimizations'' \<longrightarrow> field (JObject fs') k = field (JObject fs0) k"
    and array: "field (JObject fs') ''optimizations'' = Some (JArray all)"
    and total: "length all = length [?one] + length [?r1, ?r2]"
    and first: "take (length [?one]) all = [?one]"
    and each: "\<forall>i < length [?r1, ?r2].
               all ! (length [?one] + i)
                 = JObject
                     [(''title'',
                       JString (''Add '' @ rec_type ([?r1, ?r2] ! i) @ '' index on ''
                                  @ rec_table ([?r1, ?r2] ! i) @ ''(''
                                  @ join '','' (rec_columns ([?r1, ?r2] ! i)) @ '')'')),
                      (''severity'',
                       JString (if str_includes (rec_reason ([?r1, ?r2] ! i)) ''missing''
                                   \<or> str_includes (rec_reason ([?r1, ?r2] ! i)) ''sequential''
                                then ''high'' else ''medium'')),
                      (''reason'', JString (rec_reason ([?r1, ?r2] ! i))),
                      (''change'',
                       JString (''CREATE INDEX idx_'' @ rec_table ([?r1, ?r2] ! i) @ ''_''
                                  @ (case rec_columns ([?r1, ?r2] ! i) of
                                       [] \<Rightarrow> ''undefined'' | c # cs \<Rightarrow> c)
                                  @ '' ON '' @ rec_table ([?r1, ?r2] ! i) @ ''(''
                                  @ join '','' (rec_columns ([?r1, ?r2] ! i)) @ '')'')),
                      (''estimatedImpact'', JString ''2-10x faster queries'')]"
    using heuristics_appended [OF remote_provider t parses b wf s recs] by blast
  have "field (JObject fs') ''summary'' = field sample_value ''summary''"
    using others unfolding sv by simp
  then have summary: "field (JObject fs') ''summary''
                        = Some (JString ''Execute a SELECT query with filtering'')"
    by (simp add: sample_value_fields field_def)
  have three: "length all = 3" using total by simp
  have "all ! 0 = take (length [?one]) all ! 0" by simp
  then have a0: "all ! 0 = ?one" unfolding first by simp
  have i0: "0 < length [?r1, ?r2]" and i1: "1 < length [?r1, ?r2]" by simp_all
  have a1: "all ! 1 = JObject [(''title'', JString ''Add btree index on users(id,name)''),
                              (''severity'', JString ''high''),
                              (''reason'', JString ''sequential scan on users''),
                              (''change'', JString ''CREATE INDEX idx_users_id ON users(id,name)''),
                              (''estimatedImpact'', JString ''2-10x faster queries'')]"
    using each [rule_format, OF i0] by simp
  have a2: "all ! 2 = JObject [(''title'', JString ''Add hash index on orders(user_id)''),
                              (''severity'', JString ''medium''),
                              (''reason'', JString ''join without index''),
                              (''change'', JString ''CREATE INDEX idx_orders_user_id ON orders(user_id)''),
                              (''estimatedImpact'', JString ''2-10x faster queries'')]"
    using each [rule_format, OF i1] by (simp add: numeral_2_eq_2)
  show ?thesis
    using remote_provider parses len run summary array three a0 a1 a2 by blast
qed

text \<open>
  Where the value the backend returned has no \<open>optimizations\<close> property, the merge throws
  and the call is rejected: the remote variant hands on the reply \<open>{}\<close>, and a request
  with a plan that parses is then answered with status 500.
\<close>

lemma merge_without_optimizations_throws:
  assumes provider: "createLLMProvider (environment w) None = Inr p"
    and supplied: "text \<noteq> []"
    and parsed: "parseExplainPlan (eng w) text d = Inr plan"
    and backend: "explainSQL w random p (llm_request (eng w) osql ssql d sch (Some text) (Some plan))
                    = Returns e0"
    and malformed: "field e0 ''optimizations'' = None"
  shows "explainSQLService w random osql ssql d sch (Some text)
           = (Throws (Error ''Cannot read properties of undefined (reading 'push')''),
              [LLMCall p (llm_request (eng w) osql ssql d sch (Some text) (Some plan))])"
proof -
  have m: "merge_heuristics (eng w) (Some plan) e0
             = Inl (Error ''Cannot read properties of undefined (reading 'push')'')"
    by (simp add: merge_heuristics_def push_optimizations_absent [OF malformed])
  show ?thesis
    unfolding explainSQLService_merge_throws
                [OF provider parse_supplied_plan_ok [OF supplied parsed] backend m]
    by simp
qed

lemma empty_reply_answers_500:
  "explainSQL (remote_world ''{}'') 0 (OpenAIProvider ''sk-1'') request = Returns (JObject [])
   \<and> fst (explainSQLService (remote_world ''{}'') 0 ''SELECT name FROM users WHERE id = 1''
            ''SELECT name FROM users WHERE id = <num_0>'' ''postgres'' None (Some ''[]''))
       = Throws (Error ''Cannot read properties of undefined (reading 'push')'')
   \<and> fst (explain_route (remote_world ''{}'') 0 0
            (Inr (sample_explain_request \<lparr> rq_explainPlan := Some ''[]'' \<rparr>)) empty_redis)
       = Some (Reply500 ''Cannot read properties of undefined (reading 'push')'')"
proof -
  let ?w = "remote_world ''{}''"
  let ?req = "sample_explain_request \<lparr> rq_explainPlan := Some ''[]'' \<rparr>"
  have b: "explainSQL ?w 0 (OpenAIProvider ''sk-1'') request = Returns (JObject [])" for request
    unfolding remote_backend
    by (simp add: reply_text_def js_or_def truthy_def sample_parse_others)
  have t: "''[]'' \<noteq> ([] :: string)" by simp
  have parses: "parseExplainPlan (eng ?w) ''[]'' ''postgres'' = Inr PostgresJsonPlan"
    unfolding sample_eng by (rule sample_plan_parses_in)
  have none: "field (JObject []) ''optimizations'' = None" by (simp add: field_def)
  note run = merge_without_optimizations_throws [OF remote_provider t parses b none]
  have c: "compute ?w 0 ?req
             = (Throws (Error ''Cannot read properties of undefined (reading 'push')''),
                [CacheMiss ''explain'',
                 LLMCall (OpenAIProvider ''sk-1'')
                   (llm_request (eng ?w) ''SELECT name FROM users WHERE id = 1''
                      ''SELECT name FROM users WHERE id = <num_0>'' ''postgres'' None (Some ''[]'')
                      (Some PostgresJsonPlan))])"
    unfolding compute_def
    by (simp add: sample_explain_request_def sample_eng sample_sanitize
          run [unfolded sample_eng])
  have l: "fst (lookup ?w empty_redis ?req) = None"
    by (simp add: lookup_def cacheGet_def client_get_def live_def sample_explain_request_def
          empty_redis_def truthy_json_def)
  show ?thesis
    using b run by (simp add: route_fails [OF l c])
qed

subsection \<open>A plan that does not parse\<close>



text \<open>An empty plan text is falsy: it is never parsed, and the run is that of an absent plan.\<close>

lemma empty_plan_is_absent:
  "explainSQLService w random osql ssql d sch (Some [])
     = explainSQLService w random osql ssql d sch None"
proof -
  have parsed: "parse_supplied_plan en (Some []) d = parse_supplied_plan en None d" for en :: "'a engine"
    by (simp add: parse_supplied_plan_def)
  have request: "llm_request en osql ssql d sch (Some []) plan
                   = llm_request en osql ssql d sch None plan" for en :: "'a engine" and plan
    by (simp add: llm_request_def truthy_def)
  show ?thesis
    unfolding explainSQLService_def parsed request ..
qed

subsection \<open>The database write\<close>

text \<open>
  C9 says that the write to the database is never awaited and never blocks the response.
  The service awaits it: in the world whose database never settles a write, the service
  and the route never answer, where the same request is answered in the example world.
\<close>

theorem persistence_blocks_response:
  "fst (explainSQLService stalled_database_world 0 ''SELECT name FROM users WHERE id = 1''
          ''SELECT name FROM users WHERE id = <num_0>'' ''postgres'' None None) = NeverSettles
   \<and> fst (explain_route stalled_database_world 0 0 (Inr sample_explain_request) empty_redis) = None
   \<and> fst (explainSQLService sample_world 0 ''SELECT name FROM users WHERE id = 1''
          ''SELECT name FROM users WHERE id = <num_0>'' ''postgres'' None None)
       = Returns sample_value"
proof -
  have pr: "createLLMProvider (environment stalled_database_world) None = Inr LocalStubProvider"
    using sample_provider by (simp add: stalled_database_world_def)
  have p: "parse_supplied_plan (eng stalled_database_world) None ''postgres'' = (None, [])"
    by (simp add: parse_supplied_plan_def)
  have b: "explainSQL stalled_database_world 0 LocalStubProvider
             (llm_request (eng stalled_database_world) ''SELECT name FROM users WHERE id = 1''
                ''SELECT name FROM users WHERE id = <num_0>'' ''postgres'' None None None)
             = Returns sample_value"
    by (rule sample_backend) (simp add: llm_request_def)
  have m: "merge_heuristics (eng stalled_database_world) None sample_value = Inr sample_value"
    by (simp add: merge_heuristics_def)
  have w: "prisma_create stalled_database_world = (\<lambda>row. NeverSettles)"
    by (simp add: stalled_database_world_def)
  have s: "fst (explainSQLService stalled_database_world 0 ''SELECT name FROM users WHERE id = 1''
          ''SELECT name FROM users WHERE id = <num_0>'' ''postgres'' None None) = NeverSettles"
    unfolding explainSQLService_backend_returns [OF pr p b m] by (simp add: w)
  have c: "fst (compute stalled_database_world 0 sample_explain_request) = NeverSettles"
    using s by (simp add: compute_def sample_explain_request_def sample_eng sample_sanitize)
  have l: "lookup stalled_database_world empty_redis sample_explain_request
             = (None, [RedisGet (cacheKey stalled_database_world sample_explain_request)])"
    by (simp add: lookup_def cacheGet_def client_get_def live_def sample_explain_request_def
          empty_redis_def truthy_json_def)
  have r: "fst (explain_route stalled_database_world 0 0 (Inr sample_explain_request) empty_redis)
             = None"
    using c by (cases "compute stalled_database_world 0 sample_explain_request")
      (simp add: explain_route_def l)
  show ?thesis using s r by (simp add: sample_service)
qed

text \<open>
  C9, amended: the row \<open>{hash, pattern, sql, sanitizedSql, dialect, explanation, confidence}\<close>
  is written inside a \<open>try\<close> and awaited. When the write succeeds the result is returned;
  when it fails the failure is logged as a warning and the same result is returned, the
  error never reaching the caller; and the service returns only once the write has
  settled. The result is the backend's value after the merge of the heuristics, and the
  row's \<open>confidence\<close> is what that value holds under \<open>confidence\<close>.
\<close>

theorem persistence_awaited:
  assumes provider: "createLLMProvider (environment w) None = Inr p"
    and parsed: "parse_supplied_plan (eng w) ep d = (plan, pevs)"
    and backend: "explainSQL w random p (llm_request (eng w) osql ssql d sch ep plan) = Returns e0"
    and result: "merge_heuristics (eng w) plan e0 = Inr result"
    and row: "row = cache_row (eng w) osql d result"
    and evs: "evs = pevs @ [LLMCall p (llm_request (eng w) osql ssql d sch ep plan), DbCreate row]"
  shows "row = \<lparr> queryHash = hash (fingerprint_sql (eng w) osql),
                 queryPattern = pattern (fingerprint_sql (eng w) osql),
                 row_sql = osql,
                 row_sanitizedSql = sanitizeSQL (eng w) osql True,
                 row_dialect = d,
                 row_explanation = result,
                 row_confidence = field result ''confidence'' \<rparr>
       \<and> (prisma_create w row = Returns u \<longrightarrow>
            explainSQLService w random osql ssql d sch ep = (Returns result, evs))
       \<and> (prisma_create w row = Throws err \<longrightarrow>
            explainSQLService w random osql ssql d sch ep
              = (Returns result, evs @ [Log Warn ''Failed to cache explanation in database'']))
       \<and> (prisma_create w row = NeverSettles \<longrightarrow>
            explainSQLService w random osql ssql d sch ep = (NeverSettles, evs))"
  unfolding explainSQLService_backend_returns [OF provider parsed backend result] row evs
  by (simp add: cache_row_def Let_def)

theorem persistence_awaited_witness:
  "explainSQLService sample_world 0 ''SELECT name FROM users WHERE id = 1''
       ''SELECT name FROM users WHERE id = <num_0>'' ''postgres'' None None
     = (Returns sample_value,
        [LLMCall LocalStubProvider
           (llm_request caching_engine ''SELECT name FROM users WHERE id = 1''
              ''SELECT name FROM users WHERE id = <num_0>'' ''postgres'' None None None),
         DbCreate (cache_row caching_engine ''SELECT name FROM users WHERE id = 1'' ''postgres''
                     sample_value)])
   \<and> explainSQLService failing_database_world 0 ''SELECT name FROM users WHERE id = 1''
       ''SELECT name FROM users WHERE id = <num_0>'' ''postgres'' None None
     = (Returns sample_value,
        [LLMCall LocalStubProvider
           (llm_request caching_engine ''SELECT name FROM users WHERE id = 1''
              ''SELECT name FROM users WHERE id = <num_0>'' ''postgres'' None None None),
         DbCreate (cache_row caching_engine ''SELECT name FROM users WHERE id = 1'' ''postgres''
                     sample_value),
         Log Warn ''Failed to cache explanation in database''])
   \<and> explainSQLService stalled_database_world 0 ''SELECT name FROM users WHERE id = 1''
       ''SELECT name FROM users WHERE id = <num_0>'' ''postgres'' None None
     = (NeverSettles,
        [LLMCall LocalStubProvider
           (llm_request caching_engine ''SELECT name FROM users WHERE id = 1''
              ''SELECT name FROM users WHERE id = <num_0>'' ''postgres'' None None None),
         DbCreate (cache_row caching_engine ''SELECT name FROM users WHERE id = 1'' ''postgres''
                     sample_value)])
   \<and> row_confidence (cache_row caching_engine ''SELECT name FROM users WHERE id = 1'' ''postgres''
                       sample_value) = Some (JString ''low'')"
proof -
  have run: "explainSQLService w 0 ''SELECT name FROM users WHERE id = 1''
               ''SELECT name FROM users WHERE id = <num_0>'' ''postgres'' None None
             = (case out of
                  Returns u \<Rightarrow> Returns sample_value
                | Throws err \<Rightarrow> Returns sample_value
                | NeverSettles \<Rightarrow> NeverSettles,
                [LLMCall LocalStubProvider
                   (llm_request caching_engine ''SELECT name FROM users WHERE id = 1''
                      ''SELECT name FROM users WHERE id = <num_0>'' ''postgres'' None None None),
                 DbCreate (cache_row caching_engine ''SELECT name FROM users WHERE id = 1''
                             ''postgres'' sample_value)]
                @ (case out of Throws err \<Rightarrow> [Log Warn ''Failed to cache explanation in database'']
                   | _ \<Rightarrow> []))"
    and conf: "row_confidence (cache_row caching_engine ''SELECT name FROM users WHERE id = 1''
                                 ''postgres'' sample_value) = Some (JString ''low'')"
    if w: "eng w = caching_engine" "environment w = environment sample_world"
      and db: "prisma_create w = (\<lambda>row. out)"
    for w :: "sample_plan world" and out
  proof -
    have pr: "createLLMProvider (environment w) None = Inr LocalStubProvider"
      using sample_provider w by simp
    have p: "parse_supplied_plan (eng w) None ''postgres'' = (None, [])"
      by (simp add: parse_supplied_plan_def)
    have b: "explainSQL w 0 LocalStubProvider
               (llm_request (eng w) ''SELECT name FROM users WHERE id = 1''
                  ''SELECT name FROM users WHERE id = <num_0>'' ''postgres'' None None None)
               = Returns sample_value"
      by (rule sample_backend) (simp add: llm_request_def)
    have m: "merge_heuristics (eng w) None sample_value = Inr sample_value"
      by (simp add: merge_heuristics_def)
    note th = persistence_awaited [OF pr p b m refl refl]
    show "explainSQLService w 0 ''SELECT name FROM users WHERE id = 1''
               ''SELECT name FROM users WHERE id = <num_0>'' ''postgres'' None None
             = (case out of
                  Returns u \<Rightarrow> Returns sample_value
                | Throws err \<Rightarrow> Returns sample_value
                | NeverSettles \<Rightarrow> NeverSettles,
                [LLMCall LocalStubProvider
                   (llm_request caching_engine ''SELECT name FROM users WHERE id = 1''
                      ''SELECT name FROM users WHERE id = <num_0>'' ''postgres'' None None None),
                 DbCreate (cache_row caching_engine ''SELECT name FROM users WHERE id = 1''
                             ''postgres'' sample_value)]
                @ (case out of Throws err \<Rightarrow> [Log Warn ''Failed to cache explanation in database'']
                   | _ \<Rightarrow> []))"
    proof (cases out)
      case (Returns u)
      then show ?thesis
        using th [THEN conjunct2, THEN conjunct1, of u] db w by simp
    next
      case (Throws err)
      then show ?thesis
        using th [THEN conjunct2, THEN conjunct2, THEN conjunct1, of err] db w by simp
    next
      case NeverSettles
      then show ?thesis
        using th [THEN conjunct2, THEN conjunct2, THEN conjunct2] db w by simp
    qed
    have "row_confidence (cache_row (eng w) ''SELECT name FROM users WHERE id = 1''
                                 ''postgres'' sample_value) = field sample_value ''confidence''"
      using th [THEN conjunct1] by simp
    then show "row_confidence (cache_row caching_engine ''SELECT name FROM users WHERE id = 1''
                                 ''postgres'' sample_value) = Some (JString ''low'')"
      unfolding w by (simp add: sample_value_fields field_def)
  qed
  have 1: "eng sample_world = caching_engine" "prisma_create sample_world = (\<lambda>row. Returns ())"
    by (simp_all add: sample_world_def)
  have 2: "eng failing_database_world = caching_engine"
    "environment failing_database_world = environment sample_world"
    "prisma_create failing_database_world = (\<lambda>row. Throws (Error ''connection lost''))"
    by (simp_all add: failing_database_world_def sample_world_def)
  have 3: "eng stalled_database_world = caching_engine"
    "environment stalled_database_world = environment sample_world"
    "prisma_create stalled_database_world = (\<lambda>row. NeverSettles)"
    by (simp_all add: stalled_database_world_def sample_world_def)
  show ?thesis
    using run [OF 1(1) refl 1(2)] run [OF 2] run [OF 3] conf [OF 2] by simp
qed

subsection \<open>Cache hits\<close>

text \<open>The reply's data: the properties of the result in their order, with the flag and the
  fingerprint of the request put over them.\<close>

lemma filter_others_set_field:
  "k = a \<or> k = b \<Longrightarrow>
     filter (\<lambda>p. fst p \<noteq> a \<and> fst p \<noteq> b) (set_field k v fs)
       = filter (\<lambda>p. fst p \<noteq> a \<and> fst p \<noteq> b) fs"
  by (induction fs) auto

lemma set_field_differs_at_key:
  "list_all2 (\<lambda>a b. fst a = fst b \<and> (fst a \<noteq> k \<longrightarrow> a = b)) (set_field k v fs) (set_field k v' fs)"
  by (induction fs) (auto simp: list_all2_same)

lemma set_field_keeps_agreement:
  "list_all2 (\<lambda>a b. fst a = fst b \<and> (fst a \<noteq> k \<longrightarrow> a = b)) xs ys \<Longrightarrow>
     list_all2 (\<lambda>a b. fst a = fst b \<and> (fst a \<noteq> k \<longrightarrow> a = b))
       (set_field k' x xs) (set_field k' x ys)"
proof (induction xs ys rule: list_all2_induct)
  case Nil
  show ?case by simp
next
  case (Cons a xs b ys)
  obtain ka va where a: "a = (ka, va)" by (cases a)
  obtain kb vb where b: "b = (kb, vb)" by (cases b)
  have k: "kb = ka" using Cons.hyps(1) by (simp add: a b)
  show ?case
  proof (cases "ka = k'")
    case True
    then show ?thesis using Cons.hyps(2) by (simp add: a b k)
  next
    case False
    then show ?thesis using Cons.hyps(1) Cons.IH by (simp add: a b k)
  qed
qed

lemma response_data_fields:
  assumes "response_data fp result flag = JObject fs"
  shows "map_of fs ''cached'' = Some (JBool flag)"
    and "map_of fs ''fingerprint'' = Some (json_of_QueryFingerprint fp)"
    and "filter (\<lambda>p. fst p \<noteq> ''cached'' \<and> fst p \<noteq> ''fingerprint'') fs
           = filter (\<lambda>p. fst p \<noteq> ''cached'' \<and> fst p \<noteq> ''fingerprint'') (spread result)"
proof -
  have fs: "fs = set_field ''fingerprint'' (json_of_QueryFingerprint fp)
                   (set_field ''cached'' (JBool flag) (spread result))"
    using assms by (simp add: response_data_def)
  show "map_of fs ''cached'' = Some (JBool flag)"
    and "map_of fs ''fingerprint'' = Some (json_of_QueryFingerprint fp)"
    by (simp_all add: fs map_of_set_field)
  show "filter (\<lambda>p. fst p \<noteq> ''cached'' \<and> fst p \<noteq> ''fingerprint'') fs
           = filter (\<lambda>p. fst p \<noteq> ''cached'' \<and> fst p \<noteq> ''fingerprint'') (spread result)"
    unfolding fs
    by (simp only: filter_others_set_field [OF disjI1 [OF refl]]
          filter_others_set_field [OF disjI2 [OF refl]])
qed

lemma response_data_flag_only:
  assumes "response_data fp result flag = JObject fs1"
    and "response_data fp result flag' = JObject fs2"
  shows "list_all2 (\<lambda>a b. fst a = fst b \<and> (fst a \<noteq> ''cached'' \<longrightarrow> a = b)) fs1 fs2"
proof -
  have 1: "fs1 = set_field ''fingerprint'' (json_of_QueryFingerprint fp)
                   (set_field ''cached'' (JBool flag) (spread result))"
    and 2: "fs2 = set_field ''fingerprint'' (json_of_QueryFingerprint fp)
                   (set_field ''cached'' (JBool flag') (spread result))"
    using assms by (simp_all add: response_data_def)
  show ?thesis
    unfolding 1 2 by (rule set_field_keeps_agreement) (rule set_field_differs_at_key)
qed

lemma response_data_is_object: "\<exists>fs. response_data fp result flag = JObject fs"
  by (simp add: response_data_def)

lemma map_of_filter_others:
  "k \<noteq> a \<Longrightarrow> k \<noteq> b \<Longrightarrow>
     map_of (filter (\<lambda>p. fst p \<noteq> a \<and> fst p \<noteq> b) fs) k = map_of fs k"
  by (induction fs) auto

lemma agreement_lookup:
  "list_all2 (\<lambda>a b. fst a = fst b \<and> (fst a \<noteq> k \<longrightarrow> a = b)) xs ys \<Longrightarrow> k' \<noteq> k \<Longrightarrow>
     map_of ys k' = map_of xs k'"
  by (induction xs ys rule: list_all2_induct) auto

lemma sample_stored_summary:
  assumes "filter (\<lambda>p. fst p \<noteq> ''cached'' \<and> fst p \<noteq> ''fingerprint'') fs
             = filter (\<lambda>p. fst p \<noteq> ''cached'' \<and> fst p \<noteq> ''fingerprint'') (spread sample_value)"
  shows "map_of fs ''summary'' = Some (JString ''Execute a SELECT query with filtering'')"
proof -
  have "map_of fs ''summary''
          = map_of (filter (\<lambda>p. fst p \<noteq> ''cached'' \<and> fst p \<noteq> ''fingerprint'') fs) ''summary''"
    by (rule map_of_filter_others [symmetric]) simp_all
  also have "\<dots> = map_of (spread sample_value) ''summary''"
    unfolding assms by (rule map_of_filter_others) simp_all
  also have "\<dots> = Some (JString ''Execute a SELECT query with filtering'')"
    by (simp add: sample_value_fields spread_def)
  finally show ?thesis .
qed

lemma sample_fingerprint:
  "json_of_QueryFingerprint (fingerprint_sql (eng sample_world) (rq_sql sample_explain_request))
     = JObject [(''hash'', JString ''h1''), (''pattern'', JString ''p1''),
                (''tables'', JArray [JString ''users'']), (''joinCount'', JNumber 0),
                (''whereClauseComplexity'', JNumber 1)]"
  by (simp add: sample_eng caching_engine_rest sample_engine_def json_of_QueryFingerprint_def)

text \<open>
  C2 says that two sequential identical requests with the cache enabled get the same
  payload, flagged false then true, with at most one backend call. While the Redis server
  cannot be reached, \<open>cacheGet\<close> and \<open>cacheSet\<close> log the error and go on: both requests are
  misses, both replies are flagged false, and the backend is called twice.
\<close>

theorem sequential_requests_unreachable_cache:
  "rq_cache sample_explain_request
   \<and> (\<exists>fs1 fs2 evs1 evs2.
          explain_route sample_world 0 0 (Inr sample_explain_request) unreachable_redis
            = (Some (Reply200 (JObject fs1)), unreachable_redis, evs1)
        \<and> explain_route sample_world 0 0 (Inr sample_explain_request) (elapse 60 unreachable_redis)
            = (Some (Reply200 (JObject fs2)), elapse 60 unreachable_redis, evs2)
        \<and> map_of fs1 ''cached'' = Some (JBool False)
        \<and> map_of fs2 ''cached'' = Some (JBool False)
        \<and> Log Err ''Cache get failed'' \<in> set evs1
        \<and> Log Err ''Cache set failed'' \<in> set evs1
        \<and> backend_calls evs1 = 1
        \<and> backend_calls evs2 = 1
        \<and> backend_calls (evs1 @ evs2) = 2)"
proof -
  let ?req = sample_explain_request
  let ?fp = "fingerprint_sql (eng sample_world) (rq_sql ?req)"
  let ?cevs = "[CacheMiss ''explain'',
         LLMCall LocalStubProvider
           (llm_request caching_engine ''SELECT name FROM users WHERE id = 1''
              ''SELECT name FROM users WHERE id = <num_0>'' ''postgres'' None None None),
         DbCreate (cache_row caching_engine ''SELECT name FROM users WHERE id = 1'' ''postgres''
                     sample_value)]"
  let ?evs = "[RedisGet ''explain:h1'', Log Err ''Cache get failed''] @ ?cevs
                @ [RedisSetEx ''explain:h1'' 3600 sample_text, Log Err ''Cache set failed'']
                @ [RequestMetrics 200]"
  have on: "rq_cache ?req" by (simp add: sample_explain_request_def)
  have run: "explain_route sample_world 0 0 (Inr ?req) rd
               = (Some (Reply200 (response_data ?fp sample_value False)), rd, ?evs)"
    if down: "\<not> reachable rd" for rd
  proof -
    have l: "lookup sample_world rd ?req = (None, [RedisGet ''explain:h1'', Log Err ''Cache get failed''])"
      using on by (simp add: lookup_def cacheGet_unreachable [OF down] sample_cacheKey truthy_json_def)
    have e: "elapse 0 rd = rd" by (simp add: elapse_def)
    have s: "store sample_world rd ?req sample_value
               = (rd, [RedisSetEx ''explain:h1'' 3600 sample_text, Log Err ''Cache set failed''])"
      using on down
      by (simp add: store_def cacheSet_def client_setEx_def sample_cacheKey)
         (simp add: sample_world_def sample_stringify_value)
    have l1: "fst (lookup sample_world rd ?req) = None" by (simp add: l)
    show ?thesis
      unfolding route_miss [OF l1 sample_compute] e s l send_result_def by simp
  qed
  obtain fs where fs: "response_data ?fp sample_value False = JObject fs"
    using response_data_is_object by blast
  have flag: "map_of fs ''cached'' = Some (JBool False)"
    by (rule response_data_fields(1) [OF fs])
  have 1: "\<not> reachable unreachable_redis" by (simp add: unreachable_redis_def)
  have 2: "\<not> reachable (elapse 60 unreachable_redis)"
    by (simp add: unreachable_redis_def elapse_def)
  have one: "backend_calls ?evs = 1"
    by (simp add: backend_calls_def is_backend_call_def)
  have two: "backend_calls (?evs @ ?evs) = 2"
    unfolding backend_calls_append [of ?evs ?evs] one by simp
  have g: "Log Err ''Cache get failed'' \<in> set ?evs" by simp
  have st: "Log Err ''Cache set failed'' \<in> set ?evs" by simp
  show ?thesis
    unfolding run [OF 1] run [OF 2] fs
    using on flag one two g st by blast
qed

text \<open>
  C2, amended. With the cache enabled, a lookup that yields a truthy value is answered
  with the properties of that value in their order, the flag \<open>cached = true\<close> and the
  fingerprint of the request's SQL put over them, and the run consists of the Redis read
  and the two metrics, so that there is no backend call, no parse and no database write.
  When the Redis server is reachable, a first request misses and computes a truthy result
  whose JSON text is not empty and parses back to it, then the same request less than 3600
  seconds after the write is a hit: the two payloads have the same properties in the same
  order with the same values, except that \<open>cached\<close> is false in the first and true in the
  second; they hold the properties of the computed result under the request's
  fingerprint; and the backend is called at most once over both runs.
\<close>

theorem cache_hit_idempotent:
  assumes on: "rq_cache req"
    and fp: "fp = json_of_QueryFingerprint (fingerprint_sql (eng w) (rq_sql req))"
  shows "(cacheGet (JSON_parse (eng w)) rd (cacheKey w req) = (stored, gevs) \<and> truthy_json stored
          \<longrightarrow> (\<exists>fs.
                explain_route w delay random (Inr req) rd
                  = (Some (Reply200 (JObject fs)), rd,
                     gevs @ [CacheHit ''explain'', RequestMetrics 200])
              \<and> map_of fs ''cached'' = Some (JBool True)
              \<and> map_of fs ''fingerprint'' = Some fp
              \<and> filter (\<lambda>p. fst p \<noteq> ''cached'' \<and> fst p \<noteq> ''fingerprint'') fs
                  = filter (\<lambda>p. fst p \<noteq> ''cached'' \<and> fst p \<noteq> ''fingerprint'') (spread stored)))
       \<and> (reachable rd \<and> fst (lookup w rd req) = None
            \<and> compute w random req = (Returns result, cevs)
            \<and> truthy_json result
            \<and> stringify_value w result \<noteq> []
            \<and> JSON_parse (eng w) (stringify_value w result) = Some result
            \<and> gap < 3600
          \<longrightarrow> (\<exists>rd1 evs1 fs1 fs2 evs2.
                explain_route w delay random (Inr req) rd
                  = (Some (Reply200 (JObject fs1)), rd1, evs1)
              \<and> explain_route w delay' random' (Inr req) (elapse gap rd1)
                  = (Some (Reply200 (JObject fs2)), elapse gap rd1, evs2)
              \<and> evs2 = [RedisGet (cacheKey w req), CacheHit ''explain'', RequestMetrics 200]
              \<and> list_all2 (\<lambda>a b. fst a = fst b \<and> (fst a \<noteq> ''cached'' \<longrightarrow> a = b)) fs1 fs2
              \<and> map_of fs1 ''cached'' = Some (JBool False)
              \<and> map_of fs2 ''cached'' = Some (JBool True)
              \<and> map_of fs1 ''fingerprint'' = Some fp
              \<and> filter (\<lambda>p. fst p \<noteq> ''cached'' \<and> fst p \<noteq> ''fingerprint'') fs1
                  = filter (\<lambda>p. fst p \<noteq> ''cached'' \<and> fst p \<noteq> ''fingerprint'') (spread result)
              \<and> backend_calls (evs1 @ evs2) \<le> 1))"
proof (intro conjI impI)
  assume h: "cacheGet (JSON_parse (eng w)) rd (cacheKey w req) = (stored, gevs) \<and> truthy_json stored"
  obtain fs where fs: "response_data (fingerprint_sql (eng w) (rq_sql req)) stored True = JObject fs"
    using response_data_is_object by blast
  have "explain_route w delay random (Inr req) rd
          = (Some (Reply200 (JObject fs)), rd, gevs @ [CacheHit ''explain'', RequestMetrics 200])"
    using route_hit [OF on conjunct1 [OF h] conjunct2 [OF h]] by (simp add: send_result_def fs)
  then show "\<exists>fs.
                explain_route w delay random (Inr req) rd
                  = (Some (Reply200 (JObject fs)), rd,
                     gevs @ [CacheHit ''explain'', RequestMetrics 200])
              \<and> map_of fs ''cached'' = Some (JBool True)
              \<and> map_of fs ''fingerprint'' = Some fp
              \<and> filter (\<lambda>p. fst p \<noteq> ''cached'' \<and> fst p \<noteq> ''fingerprint'') fs
                  = filter (\<lambda>p. fst p \<noteq> ''cached'' \<and> fst p \<noteq> ''fingerprint'') (spread stored)"
    using response_data_fields [OF fs] unfolding fp by blast
next
  assume h: "reachable rd \<and> fst (lookup w rd req) = None
            \<and> compute w random req = (Returns result, cevs)
            \<and> truthy_json result
            \<and> stringify_value w result \<noteq> []
            \<and> JSON_parse (eng w) (stringify_value w result) = Some result
            \<and> gap < 3600"
  then have up: "reachable rd" and miss: "fst (lookup w rd req) = None"
    and computed: "compute w random req = (Returns result, cevs)"
    and truthy_result: "truthy_json result"
    and nonempty: "stringify_value w result \<noteq> []"
    and round_trip: "JSON_parse (eng w) (stringify_value w result) = Some result"
    and gap: "gap < 3600"
    by simp_all
  let ?rd1 = "fst (store w (elapse delay rd) req result)"
  let ?evs1 = "snd (lookup w rd req) @ cevs @ snd (store w (elapse delay rd) req result)
                @ [RequestMetrics 200]"
  let ?evs2 = "[RedisGet (cacheKey w req), CacheHit ''explain'', RequestMetrics 200]"
  obtain fs1 where fs1: "response_data (fingerprint_sql (eng w) (rq_sql req)) result False = JObject fs1"
    using response_data_is_object by blast
  obtain fs2 where fs2: "response_data (fingerprint_sql (eng w) (rq_sql req)) result True = JObject fs2"
    using response_data_is_object by blast
  have first: "explain_route w delay random (Inr req) rd
                 = (Some (Reply200 (JObject fs1)), ?rd1, ?evs1)"
    unfolding route_miss [OF miss computed] by (simp add: send_result_def fs1)
  have later: "reachable (elapse delay rd)" using up by (simp add: elapse_def)
  have got: "cacheGet (JSON_parse (eng w)) (elapse gap ?rd1) (cacheKey w req)
               = (result, [RedisGet (cacheKey w req)])"
    using on
      cacheGet_after_cacheSet
        [where parse = "JSON_parse (eng w)" and stringify = "stringify_value w" and v = result
           and key = "cacheKey w req", OF later gap nonempty round_trip]
    by (simp add: store_def)
  have second: "explain_route w delay' random' (Inr req) (elapse gap ?rd1)
                 = (Some (Reply200 (JObject fs2)), elapse gap ?rd1, ?evs2)"
    unfolding route_hit [OF on got truthy_result] by (simp add: send_result_def fs2)
  have "backend_calls cevs \<le> 1"
    using compute_backend_calls [of w random req] computed by simp
  then have calls: "backend_calls ?evs1 \<le> 1"
    using lookup_backend_calls [of w rd req] store_backend_calls [of w "elapse delay rd" req result]
    by (simp add: backend_calls_append) (simp add: backend_calls_def is_backend_call_def)
  have none: "backend_calls ?evs2 = 0"
    by (simp add: backend_calls_def is_backend_call_def)
  have "backend_calls (?evs1 @ ?evs2) = backend_calls ?evs1 + backend_calls ?evs2"
    by (rule backend_calls_append)
  then have both: "backend_calls (?evs1 @ ?evs2) \<le> 1"
    using calls none by linarith
  note same = response_data_flag_only [OF fs1 fs2]
  note f1 = response_data_fields [OF fs1]
  note f2 = response_data_fields [OF fs2]
  show "\<exists>rd1 evs1 fs1 fs2 evs2.
                explain_route w delay random (Inr req) rd
                  = (Some (Reply200 (JObject fs1)), rd1, evs1)
              \<and> explain_route w delay' random' (Inr req) (elapse gap rd1)
                  = (Some (Reply200 (JObject fs2)), elapse gap rd1, evs2)
              \<and> evs2 = [RedisGet (cacheKey w req), CacheHit ''explain'', RequestMetrics 200]
              \<and> list_all2 (\<lambda>a b. fst a = fst b \<and> (fst a \<noteq> ''cached'' \<longrightarrow> a = b)) fs1 fs2
              \<and> map_of fs1 ''cached'' = Some (JBool False)
              \<and> map_of fs2 ''cached'' = Some (JBool True)
              \<and> map_of fs1 ''fingerprint'' = Some fp
              \<and> filter (\<lambda>p. fst p \<noteq> ''cached'' \<and> fst p \<noteq> ''fingerprint'') fs1
                  = filter (\<lambda>p. fst p \<noteq> ''cached'' \<and> fst p \<noteq> ''fingerprint'') (spread result)
              \<and> backend_calls (evs1 @ evs2) \<le> 1"
    using first second same f1 f2(1) both unfolding fp
    by (intro exI [of _ ?rd1] exI [of _ ?evs1] exI [of _ fs1] exI [of _ fs2] exI [of _ ?evs2])
       simp
qed

theorem cache_hit_idempotent_witness:
  "rq_cache sample_explain_request
   \<and> cacheGet (JSON_parse (eng sample_world)) warm_redis
        (cacheKey sample_world sample_explain_request)
       = (sample_value, [RedisGet ''explain:h1''])
   \<and> truthy_json sample_value
   \<and> (\<exists>fs. explain_route sample_world 0 0 (Inr sample_explain_request) warm_redis
               = (Some (Reply200 (JObject fs)), warm_redis,
                  [RedisGet ''explain:h1'', CacheHit ''explain'', RequestMetrics 200])
           \<and> map_of fs ''cached'' = Some (JBool True)
           \<and> map_of fs ''fingerprint''
               = Some (JObject [(''hash'', JString ''h1''), (''pattern'', JString ''p1''),
                                (''tables'', JArray [JString ''users'']), (''joinCount'', JNumber 0),
                                (''whereClauseComplexity'', JNumber 1)])
           \<and> map_of fs ''summary'' = Some (JString ''Execute a SELECT query with filtering''))
   \<and> reachable empty_redis
   \<and> fst (lookup sample_world empty_redis sample_explain_request) = None
   \<and> compute sample_world 0 sample_explain_request
       = (Returns sample_value,
          [CacheMiss ''explain'',
           LLMCall LocalStubProvider
             (llm_request caching_engine ''SELECT name FROM users WHERE id = 1''
                ''SELECT name FROM users WHERE id = <num_0>'' ''postgres'' None None None),
           DbCreate (cache_row caching_engine ''SELECT name FROM users WHERE id = 1'' ''postgres''
                       sample_value)])
   \<and> stringify_value sample_world sample_value \<noteq> []
   \<and> JSON_parse (eng sample_world) (stringify_value sample_world sample_value) = Some sample_value
   \<and> (\<exists>rd1 evs1 fs1 fs2 evs2.
          explain_route sample_world 2 0 (Inr sample_explain_request) empty_redis
            = (Some (Reply200 (JObject fs1)), rd1, evs1)
        \<and> explain_route sample_world 5 (1 / 2) (Inr sample_explain_request) (elapse 60 rd1)
            = (Some (Reply200 (JObject fs2)), elapse 60 rd1, evs2)
        \<and> evs2 = [RedisGet (cacheKey sample_world sample_explain_request), CacheHit ''explain'',
                    RequestMetrics 200]
        \<and> list_all2 (\<lambda>a b. fst a = fst b \<and> (fst a \<noteq> ''cached'' \<longrightarrow> a = b)) fs1 fs2
        \<and> map_of fs1 ''cached'' = Some (JBool False)
        \<and> map_of fs2 ''cached'' = Some (JBool True)
        \<and> map_of fs1 ''summary'' = Some (JString ''Execute a SELECT query with filtering'')
        \<and> map_of fs2 ''summary'' = Some (JString ''Execute a SELECT query with filtering'')
        \<and> backend_calls (evs1 @ evs2) \<le> 1)"
proof -
  let ?req = sample_explain_request
  have 1: "rq_cache ?req" by (simp add: sample_explain_request_def)
  have 2: "reachable empty_redis" by (simp add: empty_redis_def)
  have 3: "fst (lookup sample_world empty_redis ?req) = None"
    by (simp add: sample_lookup_empty)
  have 4: "stringify_value sample_world sample_value \<noteq> []"
    by (simp add: sample_world_def sample_stringify_value sample_text_not_empty)
  have 5: "JSON_parse (eng sample_world) (stringify_value sample_world sample_value)
             = Some sample_value"
    unfolding sample_eng by (simp add: sample_world_def sample_stringify_value sample_parse_text)
  have 6: "(60::nat) < 3600" by simp
  note hit_rule = cache_hit_idempotent
      [OF 1 refl, where w = sample_world and rd = warm_redis and delay = 0 and random = 0,
       THEN conjunct1, rule_format, OF conjI [OF warm_hit sample_value_truthy]]
  obtain fs where
    h1: "explain_route sample_world 0 0 (Inr ?req) warm_redis
           = (Some (Reply200 (JObject fs)), warm_redis,
              [RedisGet ''explain:h1''] @ [CacheHit ''explain'', RequestMetrics 200])"
    and h2: "map_of fs ''cached'' = Some (JBool True)"
    and h3: "map_of fs ''fingerprint''
               = Some (json_of_QueryFingerprint (fingerprint_sql (eng sample_world) (rq_sql ?req)))"
    and h4: "filter (\<lambda>p. fst p \<noteq> ''cached'' \<and> fst p \<noteq> ''fingerprint'') fs
               = filter (\<lambda>p. fst p \<noteq> ''cached'' \<and> fst p \<noteq> ''fingerprint'') (spread sample_value)"
    using hit_rule by blast
  have hit: "\<exists>fs. explain_route sample_world 0 0 (Inr ?req) warm_redis
               = (Some (Reply200 (JObject fs)), warm_redis,
                  [RedisGet ''explain:h1'', CacheHit ''explain'', RequestMetrics 200])
           \<and> map_of fs ''cached'' = Some (JBool True)
           \<and> map_of fs ''fingerprint''
               = Some (JObject [(''hash'', JString ''h1''), (''pattern'', JString ''p1''),
                                (''tables'', JArray [JString ''users'']), (''joinCount'', JNumber 0),
                                (''whereClauseComplexity'', JNumber 1)])
           \<and> map_of fs ''summary'' = Some (JString ''Execute a SELECT query with filtering'')"
    using h1 h2 h3 [unfolded sample_fingerprint] sample_stored_summary [OF h4]
    by (intro exI [of _ fs]) simp
  have hyp: "reachable empty_redis \<and> fst (lookup sample_world empty_redis ?req) = None
            \<and> compute sample_world 0 ?req
                = (Returns sample_value,
                   [CacheMiss ''explain'',
                    LLMCall LocalStubProvider
                      (llm_request caching_engine ''SELECT name FROM users WHERE id = 1''
                         ''SELECT name FROM users WHERE id = <num_0>'' ''postgres'' None None None),
                    DbCreate (cache_row caching_engine ''SELECT name FROM users WHERE id = 1''
                                ''postgres'' sample_value)])
            \<and> truthy_json sample_value
            \<and> stringify_value sample_world sample_value \<noteq> []
            \<and> JSON_parse (eng sample_world) (stringify_value sample_world sample_value)
                = Some sample_value
            \<and> (60::nat) < 3600"
    using 2 3 sample_compute sample_value_truthy 4 5 6 by blast
  note twice_rule = cache_hit_idempotent
      [OF 1 refl, where w = sample_world and rd = empty_redis and delay = 2 and random = 0
         and delay' = 5 and random' = "1 / 2" and gap = 60,
       THEN conjunct2, rule_format, OF hyp]
  obtain rd1 evs1 fs1 fs2 evs2 where
    t1: "explain_route sample_world 2 0 (Inr ?req) empty_redis
           = (Some (Reply200 (JObject fs1)), rd1, evs1)"
    and t2: "explain_route sample_world 5 (1 / 2) (Inr ?req) (elapse 60 rd1)
           = (Some (Reply200 (JObject fs2)), elapse 60 rd1, evs2)"
    and t3: "evs2 = [RedisGet (cacheKey sample_world ?req), CacheHit ''explain'', RequestMetrics 200]"
    and t4: "list_all2 (\<lambda>a b. fst a = fst b \<and> (fst a \<noteq> ''cached'' \<longrightarrow> a = b)) fs1 fs2"
    and t5: "map_of fs1 ''cached'' = Some (JBool False)"
    and t6: "map_of fs2 ''cached'' = Some (JBool True)"
    and t7: "filter (\<lambda>p. fst p \<noteq> ''cached'' \<and> fst p \<noteq> ''fingerprint'') fs1
               = filter (\<lambda>p. fst p \<noteq> ''cached'' \<and> fst p \<noteq> ''fingerprint'') (spread sample_value)"
    and t8: "backend_calls (evs1 @ evs2) \<le> 1"
    using twice_rule by blast
  have s1: "map_of fs1 ''summary'' = Some (JString ''Execute a SELECT query with filtering'')"
    by (rule sample_stored_summary [OF t7])
  have "map_of fs2 ''summary'' = map_of fs1 ''summary''"
    by (rule agreement_lookup [OF t4]) simp
  then have s2: "map_of fs2 ''summary'' = Some (JString ''Execute a SELECT query with filtering'')"
    using s1 by simp
  have twice: "\<exists>rd1 evs1 fs1 fs2 evs2.
          explain_route sample_world 2 0 (Inr ?req) empty_redis
            = (Some (Reply200 (JObject fs1)), rd1, evs1)
        \<and> explain_route sample_world 5 (1 / 2) (Inr ?req) (elapse 60 rd1)
            = (Some (Reply200 (JObject fs2)), elapse 60 rd1, evs2)
        \<and> evs2 = [RedisGet (cacheKey sample_world ?req), CacheHit ''explain'',
                    RequestMetrics 200]
        \<and> list_all2 (\<lambda>a b. fst a = fst b \<and> (fst a \<noteq> ''cached'' \<longrightarrow> a = b)) fs1 fs2
        \<and> map_of fs1 ''cached'' = Some (JBool False)
        \<and> map_of fs2 ''cached'' = Some (JBool True)
        \<and> map_of fs1 ''summary'' = Some (JString ''Execute a SELECT query with filtering'')
        \<and> map_of fs2 ''summary'' = Some (JString ''Execute a SELECT query with filtering'')
        \<and> backend_calls (evs1 @ evs2) \<le> 1"
    using t1 t2 t3 t4 t5 t6 s1 s2 t8 by blast
  show ?thesis
    using 1 warm_hit sample_value_truthy hit 2 3 sample_compute 4 5 twice by blast
qed

subsection \<open>Identical requests in flight together\<close>

text \<open>The route sends no lock command to Redis: it never calls \<open>acquireStampedeLock\<close> or
  \<open>releaseStampedeLock\<close>.\<close>

lemma lock_commands_append: "lock_commands (xs @ ys) = lock_commands xs @ lock_commands ys"
  by (simp add: lock_commands_def)

lemma cacheGet_no_lock: "lock_commands (snd (cacheGet parse rd key)) = []"
  by (simp add: cacheGet_def lock_commands_def is_lock_command_def
      split: sum.splits option.splits)

lemma cacheSet_no_lock: "lock_commands (snd (cacheSet stringify rd key v ttl)) = []"
  by (simp add: cacheSet_def lock_commands_def is_lock_command_def Let_def split: sum.splits)

lemma parse_supplied_plan_no_lock: "lock_commands (snd (parse_supplied_plan en ep d)) = []"
  by (simp add: parse_supplied_plan_def lock_commands_def is_lock_command_def
      split: option.splits sum.splits)

lemma explainSQLService_no_lock:
  "lock_commands (snd (explainSQLService w random osql ssql d sch ep)) = []"
  using parse_supplied_plan_no_lock [of "eng w" ep d]
  by (simp add: explainSQLService_def Let_def lock_commands_append
      split: sum.splits completion.splits)
     (simp add: lock_commands_def is_lock_command_def)

lemma lookup_no_lock: "lock_commands (snd (lookup w rd req)) = []"
  using cacheGet_no_lock [of "JSON_parse (eng w)" rd "cacheKey w req"]
  by (cases "cacheGet (JSON_parse (eng w)) rd (cacheKey w req)")
     (auto simp: lookup_def lock_commands_def is_lock_command_def)

lemma compute_no_lock: "lock_commands (snd (compute w random req)) = []"
  using explainSQLService_no_lock
  by (simp add: compute_def Let_def lock_commands_def is_lock_command_def)

lemma store_no_lock: "lock_commands (snd (store w rd req result)) = []"
  using cacheSet_no_lock by (simp add: store_def lock_commands_def)

lemma route_no_lock_commands:
  "lock_commands (snd (snd (explain_route w delay random body rd))) = []"
proof (cases body)
  case (Inl message)
  then show ?thesis by (simp add: explain_route_def lock_commands_def)
next
  case (Inr req)
  obtain hit evs where l: "lookup w rd req = (hit, evs)" by (cases "lookup w rd req")
  obtain out evs2 where c: "compute w random req = (out, evs2)" by (cases "compute w random req")
  have 1: "lock_commands evs = []" using lookup_no_lock [of w rd req] l by simp
  have 2: "lock_commands evs2 = []" using compute_no_lock [of w random req] c by simp
  have 3: "lock_commands [RequestMetrics 200] = []"
          "lock_commands [RequestMetrics 500, Log Err ''Explain endpoint error''] = []"
    by (simp_all add: lock_commands_def is_lock_command_def)
  show ?thesis
    using Inr l c 1 2 3 store_no_lock
    by (cases hit; cases out)
       (auto simp: explain_route_def Let_def lock_commands_append split: error.splits)
qed

lemma run_schedule_append:
  "run_schedule w rs sv (ms @ ms') = run_schedule w rs (run_schedule w rs sv ms) ms'"
  by (simp add: run_schedule_def)

lemma three_lookups:
  "run_schedule sample_world (\<lambda>i. 0) three_arrivals [Run 0, Run 1, Run 2]
     = \<lparr> tasks = [Missed sample_explain_request, Missed sample_explain_request,
                  Missed sample_explain_request],
         store_state = empty_redis,
         trace = [RedisGet (cacheKey sample_world sample_explain_request),
                  RedisGet (cacheKey sample_world sample_explain_request),
                  RedisGet (cacheKey sample_world sample_explain_request)] \<rparr>"
  by (simp add: run_schedule_def server_step_def three_arrivals_def task_step_def
        sample_lookup_empty)

lemma three_computes:
  "run_schedule sample_world (\<lambda>i. 0)
     \<lparr> tasks = [Missed sample_explain_request, Missed sample_explain_request,
                Missed sample_explain_request],
       store_state = empty_redis, trace = evs \<rparr> [Run 0, Run 1, Run 2]
     = \<lparr> tasks = [Computed sample_explain_request sample_value,
                  Computed sample_explain_request sample_value,
                  Computed sample_explain_request sample_value],
         store_state = empty_redis,
         trace = evs @ snd (compute sample_world 0 sample_explain_request)
                   @ snd (compute sample_world 0 sample_explain_request)
                   @ snd (compute sample_world 0 sample_explain_request) \<rparr>"
  by (simp add: run_schedule_def server_step_def task_step_def sample_compute)

lemma three_stores:
  "\<exists>rd. run_schedule sample_world (\<lambda>i. 0)
     \<lparr> tasks = [Computed sample_explain_request sample_value,
                Computed sample_explain_request sample_value,
                Computed sample_explain_request sample_value],
       store_state = empty_redis, trace = evs \<rparr> [Run 0, Run 1, Run 2]
     = \<lparr> tasks = [Replied (send_result sample_world sample_explain_request sample_value False),
                  Replied (send_result sample_world sample_explain_request sample_value False),
                  Replied (send_result sample_world sample_explain_request sample_value False)],
         store_state = rd,
         trace = evs @ [RedisSetEx (cacheKey sample_world sample_explain_request) 3600
                          (stringify_value sample_world sample_value), RequestMetrics 200,
                        RedisSetEx (cacheKey sample_world sample_explain_request) 3600
                          (stringify_value sample_world sample_value), RequestMetrics 200,
                        RedisSetEx (cacheKey sample_world sample_explain_request) 3600
                          (stringify_value sample_world sample_value), RequestMetrics 200] \<rparr>"
  by (simp add: run_schedule_def server_step_def task_step_def sample_store reachable_empty_redis)

text \<open>
  Whatever the number N of identical requests: when each looks the cache up before any of
  them has written to it, and each call of the service returns, the backend has been
  called N times, however the run goes on.
\<close>

lemma server_step_Run:
  assumes "i < length ts" and "task_step w (rs i) (ts ! i) rd = (t', rd', evs)"
  shows "server_step w rs \<lparr> tasks = ts, store_state = rd, trace = tr \<rparr> (Run i)
           = \<lparr> tasks = ts[i := t'], store_state = rd', trace = tr @ evs \<rparr>"
  using assms by (simp add: server_step_def)

lemma update_one_of_map:
  assumes "k < N"
  shows "(map (\<lambda>i. if i < k then g i else f i) [0..<N])[k := g k]
           = map (\<lambda>i. if i < Suc k then g i else f i) [0..<N]"
  using assms by (auto simp: list_eq_iff_nth_eq nth_list_update less_Suc_eq)

lemma phase:
  assumes steps: "\<forall>i<N. task_step w (rs i) (f i) rd = (g i, rd, e i)"
  shows "k \<le> N \<Longrightarrow>
         run_schedule w rs \<lparr> tasks = map f [0..<N], store_state = rd, trace = tr \<rparr>
           (map Run [0..<k])
         = \<lparr> tasks = map (\<lambda>i. if i < k then g i else f i) [0..<N], store_state = rd,
             trace = tr @ concat (map e [0..<k]) \<rparr>"
proof (induction k)
  case 0
  show ?case by (simp add: run_schedule_def)
next
  case (Suc k)
  then have k: "k < N" by simp
  have before: "run_schedule w rs \<lparr> tasks = map f [0..<N], store_state = rd, trace = tr \<rparr>
           (map Run [0..<k])
         = \<lparr> tasks = map (\<lambda>i. if i < k then g i else f i) [0..<N], store_state = rd,
             trace = tr @ concat (map e [0..<k]) \<rparr>"
    using Suc by simp
  have at: "map (\<lambda>i. if i < k then g i else f i) [0..<N] ! k = f k"
    using k by simp
  have one: "task_step w (rs k) (map (\<lambda>i. if i < k then g i else f i) [0..<N] ! k) rd
               = (g k, rd, e k)"
    unfolding at using steps k by blast
  have len: "k < length (map (\<lambda>i. if i < k then g i else f i) [0..<N])"
    using k by simp
  have "run_schedule w rs \<lparr> tasks = map f [0..<N], store_state = rd, trace = tr \<rparr>
           (map Run [0..<Suc k])
        = server_step w rs
            \<lparr> tasks = map (\<lambda>i. if i < k then g i else f i) [0..<N], store_state = rd,
              trace = tr @ concat (map e [0..<k]) \<rparr> (Run k)"
    using before by (simp add: run_schedule_def)
  also have "\<dots> = \<lparr> tasks = (map (\<lambda>i. if i < k then g i else f i) [0..<N])[k := g k],
                     store_state = rd, trace = (tr @ concat (map e [0..<k])) @ e k \<rparr>"
    by (rule server_step_Run [where rs = rs, OF len one])
  finally show ?case
    by (simp add: update_one_of_map [OF k])
qed

lemma whole_phase:
  assumes "\<forall>i<N. task_step w (rs i) (f i) rd = (g i, rd, e i)"
  shows "run_schedule w rs \<lparr> tasks = map f [0..<N], store_state = rd, trace = tr \<rparr>
           (map Run [0..<N])
         = \<lparr> tasks = map g [0..<N], store_state = rd, trace = tr @ concat (map e [0..<N]) \<rparr>"
proof -
  have "map (\<lambda>i. if i < N then g i else f i) [0..<N] = map g [0..<N]"
    by simp
  then show ?thesis
    using phase [OF assms, of N tr] by simp
qed

lemma backend_calls_concat:
  "\<forall>x\<in>set xs. backend_calls (e x) = c \<Longrightarrow> backend_calls (concat (map e xs)) = c * length xs"
  by (induction xs) (simp_all add: backend_calls_append, simp add: backend_calls_def)

lemma compute_returns_one_call:
  assumes "fst (compute w random req) = Returns result"
  shows "backend_calls (snd (compute w random req)) = Suc 0"
proof -
  have "fst (explainSQLService w random osql ssql d sch ep) = Returns x \<Longrightarrow>
        backend_calls (snd (explainSQLService w random osql ssql d sch ep)) = Suc 0"
    for osql ssql d sch ep x
    by (auto simp: explainSQLService_def parse_supplied_plan_def backend_calls_def
          is_backend_call_def Let_def
        split: sum.splits completion.splits option.splits if_splits)
  then show ?thesis
    using assms by (simp add: compute_def Let_def backend_calls_def is_backend_call_def)
qed

lemma task_step_past_compute:
  assumes "past_compute t" and "task_step w random t rd = (t', rd', evs)"
  shows "past_compute t' \<and> backend_calls evs = 0"
proof (cases t)
  case (Computed req result)
  then show ?thesis
    using assms(2) store_backend_calls [of w rd req result]
    by (auto simp: task_step_def Let_def past_compute_def backend_calls_append)
       (simp add: backend_calls_def is_backend_call_def)
next
  case (Replied r)
  then show ?thesis
    using assms(2) by (auto simp: task_step_def past_compute_def backend_calls_def)
next
  case Hung
  then show ?thesis
    using assms(2) by (auto simp: task_step_def past_compute_def backend_calls_def)
qed (use assms(1) in \<open>simp_all add: past_compute_def\<close>)

lemma server_step_past_compute:
  assumes "list_all past_compute (tasks sv)"
  shows "list_all past_compute (tasks (server_step w rs sv m))
       \<and> backend_calls (trace (server_step w rs sv m)) = backend_calls (trace sv)"
proof (cases m)
  case (Wait d)
  then show ?thesis using assms by (simp add: server_step_def)
next
  case (Run i)
  show ?thesis
  proof (cases "i < length (tasks sv)")
    case False
    then show ?thesis using assms Run by (simp add: server_step_def)
  next
    case True
    obtain t' rd' evs where
      st: "task_step w (rs i) (tasks sv ! i) (store_state sv) = (t', rd', evs)"
      by (cases "task_step w (rs i) (tasks sv ! i) (store_state sv)")
    have "past_compute (tasks sv ! i)"
      using assms True by (simp add: list_all_length)
    then have "past_compute t' \<and> backend_calls evs = 0"
      using st by (rule task_step_past_compute)
    moreover have "list_all past_compute ((tasks sv)[i := t'])" if "past_compute t'"
      using assms that True by (auto simp: list_all_length nth_list_update)
    ultimately show ?thesis
      using Run True st by (simp add: server_step_def backend_calls_append)
  qed
qed

lemma run_schedule_past_compute:
  "list_all past_compute (tasks sv) \<Longrightarrow>
     backend_calls (trace (run_schedule w rs sv ms)) = backend_calls (trace sv)"
proof (induction ms arbitrary: sv)
  case Nil
  show ?case by (simp add: run_schedule_def)
next
  case (Cons m ms)
  have "run_schedule w rs sv (m # ms) = run_schedule w rs (server_step w rs sv m) ms"
    by (simp add: run_schedule_def)
  then show ?case
    using Cons.IH [of "server_step w rs sv m"] server_step_past_compute [OF Cons.prems, of w rs m]
    by simp
qed

lemma concurrent_misses_call_backend_each:
  assumes miss: "fst (lookup w rd req) = None"
    and computes: "\<forall>i<N. \<exists>result. fst (compute w (rs i) req) = Returns result"
  shows "backend_calls
           (trace (run_schedule w rs
                     \<lparr> tasks = replicate N (Arrived req), store_state = rd, trace = [] \<rparr>
                     (map Run [0..<N] @ map Run [0..<N] @ ms))) = N"
proof -
  obtain levs where l: "lookup w rd req = (None, levs)"
    using miss by (cases "lookup w rd req") simp
  obtain res where res: "\<forall>i<N. fst (compute w (rs i) req) = Returns (res i)"
    using computes by metis
  have start: "replicate N (Arrived req) = map (\<lambda>i. Arrived req) [0..<N]"
    by (simp add: map_replicate_const)
  have s1: "\<forall>i<N. task_step w (rs i) (Arrived req) rd = (Missed req, rd, levs)"
    using l by (simp add: task_step_def)
  have s2: "\<forall>i<N. task_step w (rs i) (Missed req) rd
                    = (Computed req (res i), rd, snd (compute w (rs i) req))"
  proof (intro allI impI)
    fix i assume "i < N"
    then have "fst (compute w (rs i) req) = Returns (res i)" using res by blast
    then show "task_step w (rs i) (Missed req) rd
                 = (Computed req (res i), rd, snd (compute w (rs i) req))"
      by (cases "compute w (rs i) req") (simp add: task_step_def)
  qed
  let ?tr = "([] @ concat (map (\<lambda>i. levs) [0..<N]))
               @ concat (map (\<lambda>i. snd (compute w (rs i) req)) [0..<N])"
  have after: "run_schedule w rs
                 \<lparr> tasks = replicate N (Arrived req), store_state = rd, trace = [] \<rparr>
                 (map Run [0..<N] @ map Run [0..<N])
               = \<lparr> tasks = map (\<lambda>i. Computed req (res i)) [0..<N], store_state = rd,
                   trace = ?tr \<rparr>"
    unfolding start run_schedule_append whole_phase [OF s1] whole_phase [OF s2] ..
  have past: "list_all past_compute (map (\<lambda>i. Computed req (res i)) [0..<N])"
    by (simp add: list_all_iff past_compute_def)
  have c1: "backend_calls (concat (map (\<lambda>i. levs) [0..<N])) = 0 * length [0..<N]"
    using lookup_backend_calls [of w rd req] l by (intro backend_calls_concat) simp
  have "\<forall>i\<in>set [0..<N]. backend_calls (snd (compute w (rs i) req)) = Suc 0"
  proof
    fix i assume "i \<in> set [0..<N]"
    then have "fst (compute w (rs i) req) = Returns (res i)" using res by simp
    then show "backend_calls (snd (compute w (rs i) req)) = Suc 0"
      by (rule compute_returns_one_call)
  qed
  then have c2: "backend_calls (concat (map (\<lambda>i. snd (compute w (rs i) req)) [0..<N]))
              = Suc 0 * length [0..<N]"
    by (rule backend_calls_concat)
  have count: "backend_calls ?tr = N"
    using c1 c2 by (simp add: backend_calls_append)
  have "run_schedule w rs
          \<lparr> tasks = replicate N (Arrived req), store_state = rd, trace = [] \<rparr>
          (map Run [0..<N] @ map Run [0..<N] @ ms)
        = run_schedule w rs
            \<lparr> tasks = map (\<lambda>i. Computed req (res i)) [0..<N], store_state = rd, trace = ?tr \<rparr> ms"
    using after run_schedule_append [of w rs _ "map Run [0..<N] @ map Run [0..<N]" ms]
    by simp
  then show ?thesis
    using run_schedule_past_compute [of "\<lparr> tasks = map (\<lambda>i. Computed req (res i)) [0..<N],
            store_state = rd, trace = ?tr \<rparr>" w rs ms] past count
    by simp
qed

text \<open>
  C1 says that on a miss the lock is taken before the backend is called, so that N
  identical requests arriving together at an empty cache call the backend a small bounded
  number of times, never N times. Three identical requests whose cache lookups all come
  before the first cache write are each a miss: the backend is called three times, no
  lock command is sent, and all three replies carry \<open>cached = false\<close>.
\<close>

theorem three_requests_three_backend_calls:
  "backend_calls (trace (run_schedule sample_world (\<lambda>i. 0) three_arrivals
      [Run 0, Run 1, Run 2, Run 0, Run 1, Run 2, Run 0, Run 1, Run 2])) = 3
   \<and> lock_commands (trace (run_schedule sample_world (\<lambda>i. 0) three_arrivals
      [Run 0, Run 1, Run 2, Run 0, Run 1, Run 2, Run 0, Run 1, Run 2])) = []
   \<and> tasks (run_schedule sample_world (\<lambda>i. 0) three_arrivals
      [Run 0, Run 1, Run 2, Run 0, Run 1, Run 2, Run 0, Run 1, Run 2])
      = [Replied (send_result sample_world sample_explain_request sample_value False),
         Replied (send_result sample_world sample_explain_request sample_value False),
         Replied (send_result sample_world sample_explain_request sample_value False)]"
proof -
  have split: "[Run 0, Run 1, Run 2, Run 0, Run 1, Run 2, Run 0, Run 1, Run 2]
                 = [Run 0, Run 1, Run 2] @ [Run 0, Run 1, Run 2] @ [Run 0, Run 1, Run 2]"
    by simp
  obtain rd where final:
    "run_schedule sample_world (\<lambda>i. 0) three_arrivals
       [Run 0, Run 1, Run 2, Run 0, Run 1, Run 2, Run 0, Run 1, Run 2]
     = \<lparr> tasks = [Replied (send_result sample_world sample_explain_request sample_value False),
                  Replied (send_result sample_world sample_explain_request sample_value False),
                  Replied (send_result sample_world sample_explain_request sample_value False)],
         store_state = rd,
         trace = ([RedisGet (cacheKey sample_world sample_explain_request),
                  RedisGet (cacheKey sample_world sample_explain_request),
                  RedisGet (cacheKey sample_world sample_explain_request)]
                  @ snd (compute sample_world 0 sample_explain_request)
                   @ snd (compute sample_world 0 sample_explain_request)
                   @ snd (compute sample_world 0 sample_explain_request))
                 @ [RedisSetEx (cacheKey sample_world sample_explain_request) 3600
                          (stringify_value sample_world sample_value), RequestMetrics 200,
                        RedisSetEx (cacheKey sample_world sample_explain_request) 3600
                          (stringify_value sample_world sample_value), RequestMetrics 200,
                        RedisSetEx (cacheKey sample_world sample_explain_request) 3600
                          (stringify_value sample_world sample_value), RequestMetrics 200] \<rparr>"
    unfolding split run_schedule_append three_lookups three_computes
    using three_stores by blast
  show ?thesis
    unfolding final
    by (simp add: sample_compute backend_calls_def is_backend_call_def lock_commands_def
          is_lock_command_def)
qed

end
